theory Spec2Isabelle
  imports Complex_Main
begin

section \<open>Data model (src/types/index.ts)\<close>

text \<open>
  JavaScript numbers are idealised as reals (no rounding, no NaN, no infinities).
  A \<open>Date\<close> is its time value in milliseconds. An optional field \<open>f?: T\<close> is a
  \<open>T option\<close>.
\<close>

type_synonym date = int

datatype ApprovalStatus = Approved | Pending | Rejected

datatype QuotaLevel = Under | Good | NearMax | Over

record Product =
  prodId :: string
  prodName :: string
  prodMinQuota :: real
  prodMaxQuota :: real

record PurchaseItem =
  itemId :: string
  sizeCategory :: string
  pounds :: real
  cost :: real
  itemNotes :: "string option"

record ProductPurchase =
  ppId :: string
  ppProductId :: string
  ppCustomProductName :: "string option"
  ppTotalPounds :: real
  ppItems :: "PurchaseItem list"

record Shipment =
  shId :: string
  shipper :: string
  estimatedArrival :: date
  purchaseDate :: date
  weekStartDate :: date
  shProducts :: "ProductPurchase list"
  createdAt :: date
  approvalStatus :: ApprovalStatus
  purchaseOrderNumber :: "string option"
  rejectedAt :: "date option"
  purchaserId :: "string option"

record Purchase =
  puId :: string
  puProductId :: string
  puTotalPounds :: real
  puPurchaseDate :: date
  puWeekStartDate :: date
  puShipper :: string
  puEstimatedArrival :: date
  puItems :: "PurchaseItem list"
  puCreatedAt :: date
  puShipmentId :: "string option"

record WeeklyQuota =
  wqId :: string
  wqProductId :: string
  wqWeekStartDate :: date
  wqCurrentTotal :: real
  wqMinQuota :: real
  wqMaxQuota :: real

record QuotaStatus =
  qsProduct :: Product
  currentTotal :: real
  minQuota :: real
  maxQuota :: real
  percentage :: real
  status :: QuotaLevel

section \<open>Week arithmetic (src/utils/dateUtils.ts)\<close>

definition dayMs :: int where
  "dayMs = 86400000"

text \<open>
  \<open>getWeekStart\<close> is date-fns' \<open>startOfWeek\<close> with \<open>weekStartsOn: 0\<close>: midnight of
  the Sunday on or before the date. The week arithmetic reads a date on a local clock
  with a fixed offset, taken as 0. Day 0 of the time line (1 January 1970) is a
  Thursday, weekday 4.
\<close>

definition getDay :: "date \<Rightarrow> int" where
  "getDay d = (d div dayMs + 4) mod 7"

definition getWeekStart :: "date \<Rightarrow> date" where
  "getWeekStart d = (d div dayMs - getDay d) * dayMs"

text \<open>
  \<open>getWeekKey\<close> formats the week start as \<open>yyyy-MM-dd\<close>. The rendering of a calendar
  day is injective, so the key is modelled by the day number of the week's Sunday.
\<close>

definition getWeekKey :: "date \<Rightarrow> int" where
  "getWeekKey d = getWeekStart d div dayMs"

section \<open>Application state and quota status (hooks/useAppState.tsx)\<close>

record AppState =
  products :: "Product list"
  purchases :: "Purchase list"
  shipments :: "Shipment list"
  weeklyQuotas :: "WeeklyQuota list"
  viewingWeekStart :: date

datatype AppError = ProductNotFound string

text \<open>
  The committed total of a product's week bucket: the \<open>filter\<close> and \<open>reduce\<close> of
  \<open>getQuotaStatus\<close>, summing from 0 in list order.
\<close>

definition bucketTotal :: "Purchase list \<Rightarrow> string \<Rightarrow> int \<Rightarrow> real" where
  "bucketTotal ps productId weekKey =
     foldl (\<lambda>sum purchase. sum + puTotalPounds purchase) 0
       (filter (\<lambda>p. puProductId p = productId \<and> getWeekKey (puEstimatedArrival p) = weekKey) ps)"

text \<open>The \<open>if\<close> chain of \<open>getQuotaStatus\<close> that picks the status, first match first.\<close>

definition classify :: "real \<Rightarrow> real \<Rightarrow> Product \<Rightarrow> QuotaLevel" where
  "classify curTotal pct product =
     (if curTotal > prodMaxQuota product then Over
      else if pct \<ge> 90 then NearMax
      else if curTotal \<ge> prodMinQuota product then Good
      else Under)"

text \<open>
  \<open>getQuotaStatus(productId, weekStart = state.viewingWeekStart)\<close>: the optional
  argument is \<open>None\<close> when the caller leaves it out. An unknown product id throws.
\<close>

definition getQuotaStatus :: "AppState \<Rightarrow> string \<Rightarrow> date option \<Rightarrow> AppError + QuotaStatus" where
  "getQuotaStatus state productId weekStartArg =
     (let weekStart = (case weekStartArg of None \<Rightarrow> viewingWeekStart state | Some w \<Rightarrow> w) in
      case find (\<lambda>p. prodId p = productId) (products state) of
        None \<Rightarrow> Inl (ProductNotFound productId)
      | Some product \<Rightarrow>
          (let weekKey = getWeekKey weekStart;
               curTotal = bucketTotal (purchases state) productId weekKey;
               pct = (if prodMaxQuota product > 0 then (curTotal / prodMaxQuota product) * 100 else 0)
           in Inr \<lparr> qsProduct = product, currentTotal = curTotal,
                    minQuota = prodMinQuota product, maxQuota = prodMaxQuota product,
                    percentage = pct, status = classify curTotal pct product \<rparr>))"

section \<open>The reducer (hooks/useAppState.tsx, appReducer)\<close>

datatype Direction = Prev | Next

datatype AppAction =
    ADD_PURCHASE Purchase
  | ADD_SHIPMENT Shipment
  | EDIT_SHIPMENT Shipment
  | DELETE_SHIPMENT string
  | REJECT_SHIPMENT string
  | UNREJECT_SHIPMENT string
  | DELETE_OLD_REJECTED
  | UPDATE_PRODUCT Product
  | SET_WEEKLY_QUOTA WeeklyQuota
  | SET_VIEWING_WEEK date
  | NAVIGATE_WEEK Direction

text \<open>
  The flat purchases derived from a shipment, one per product line, and none for a
  rejected shipment (the expression shared by \<open>ADD_SHIPMENT\<close> and \<open>EDIT_SHIPMENT\<close>).
\<close>

definition shipmentPurchases :: "Shipment \<Rightarrow> Purchase list" where
  "shipmentPurchases shipment =
     (if approvalStatus shipment \<noteq> Rejected
      then map (\<lambda>product.
             \<lparr> puId = shId shipment @ ''_'' @ ppId product,
               puProductId = ppProductId product,
               puTotalPounds = ppTotalPounds product,
               puPurchaseDate = purchaseDate shipment,
               puWeekStartDate = weekStartDate shipment,
               puShipper = shipper shipment,
               puEstimatedArrival = estimatedArrival shipment,
               puItems = ppItems product,
               puCreatedAt = createdAt shipment,
               puShipmentId = Some (shId shipment) \<rparr>)
           (shProducts shipment)
      else [])"

text \<open>
  What the reducer reads from the clock while it reduces one action: \<open>newDate\<close> is the
  value of \<open>new Date()\<close>, and \<open>thirtyDaysAgo\<close> is what
  \<open>setDate(getDate() - 30)\<close> makes of it, thirty calendar days back on the local clock.
  The \<open>Date\<close> object computes the second from the first with the time zone's rules,
  which are not part of this program: both are given.
\<close>

record Moment =
  newDate :: date
  thirtyDaysAgo :: date

definition sameQuotaSlot :: "WeeklyQuota \<Rightarrow> WeeklyQuota \<Rightarrow> bool" where
  "sameQuotaSlot quota q =
     (wqProductId q = wqProductId quota \<and> wqWeekStartDate q = wqWeekStartDate quota)"

text \<open>The reducer; \<open>now\<close> is the clock as read while the action is reduced.\<close>

fun appReducer :: "Moment \<Rightarrow> AppState \<Rightarrow> AppAction \<Rightarrow> AppState" where
  "appReducer now state (ADD_PURCHASE purchase) =
     state\<lparr> purchases := purchases state @ [purchase] \<rparr>"
| "appReducer now state (ADD_SHIPMENT shipment) =
     state\<lparr> shipments := shipments state @ [shipment],
            purchases := purchases state @ shipmentPurchases shipment \<rparr>"
| "appReducer now state (EDIT_SHIPMENT shipment) =
     (let filteredPurchases = filter (\<lambda>p. puShipmentId p \<noteq> Some (shId shipment)) (purchases state)
      in state\<lparr> shipments := map (\<lambda>s. if shId s = shId shipment then shipment else s) (shipments state),
                purchases := filteredPurchases @ shipmentPurchases shipment \<rparr>)"
| "appReducer now state (DELETE_SHIPMENT shipmentId) =
     state\<lparr> shipments := filter (\<lambda>s. shId s \<noteq> shipmentId) (shipments state),
            purchases := filter (\<lambda>p. puShipmentId p \<noteq> Some shipmentId) (purchases state) \<rparr>"
| "appReducer now state (REJECT_SHIPMENT shipmentId) =
     (case find (\<lambda>s. shId s = shipmentId) (shipments state) of
        None \<Rightarrow> state
      | Some rejectedShipment \<Rightarrow>
          (let updatedShipment = rejectedShipment\<lparr> approvalStatus := Rejected, rejectedAt := Some (newDate now) \<rparr>
           in state\<lparr> shipments := map (\<lambda>s. if shId s = shipmentId then updatedShipment else s) (shipments state),
                     purchases := filter (\<lambda>p. puShipmentId p \<noteq> Some shipmentId) (purchases state) \<rparr>))"
| "appReducer now state (UNREJECT_SHIPMENT shipmentId) =
     (case find (\<lambda>s. shId s = shipmentId) (shipments state) of
        None \<Rightarrow> state
      | Some rejectedShipment \<Rightarrow>
          (if approvalStatus rejectedShipment \<noteq> Rejected then state
           else
             (let restoredShipment = rejectedShipment\<lparr> approvalStatus := Pending, rejectedAt := None \<rparr>
              in state\<lparr> shipments := map (\<lambda>s. if shId s = shipmentId then restoredShipment else s) (shipments state) \<rparr>)))"
| "appReducer now state DELETE_OLD_REJECTED =
     state\<lparr> shipments :=
       filter (\<lambda>s. if approvalStatus s \<noteq> Rejected then True
                   else (case rejectedAt s of
                           None \<Rightarrow> True
                         | Some r \<Rightarrow> r > thirtyDaysAgo now))
         (shipments state) \<rparr>"
| "appReducer now state (UPDATE_PRODUCT product) =
     state\<lparr> products := map (\<lambda>p. if prodId p = prodId product then product else p) (products state) \<rparr>"
| "appReducer now state (SET_WEEKLY_QUOTA quota) =
     state\<lparr> weeklyQuotas :=
       (if list_ex (sameQuotaSlot quota) (weeklyQuotas state)
        then map (\<lambda>q. if sameQuotaSlot quota q then quota else q) (weeklyQuotas state)
        else weeklyQuotas state @ [quota]) \<rparr>"
| "appReducer now state (SET_VIEWING_WEEK weekStart) =
     state\<lparr> viewingWeekStart := weekStart \<rparr>"
| "appReducer now state (NAVIGATE_WEEK direction) =
     (let newWeek = viewingWeekStart state + (if direction = Next then 7 else -7) * dayMs
      in state\<lparr> viewingWeekStart := getWeekStart newWeek \<rparr>)"

section \<open>Purchase order numbers (utils/purchaseOrderUtils.ts)\<close>

text \<open>Strings are lists of code units below 256; \<open>String(n)\<close> is the decimal numeral.\<close>

definition digitChar :: "nat \<Rightarrow> char" where
  "digitChar n = ''0123456789'' ! n"

fun natToString :: "nat \<Rightarrow> string" where
  "natToString n =
     (if n < 10 then [digitChar n] else natToString (n div 10) @ [digitChar (n mod 10)])"

declare natToString.simps [simp del]

definition numberToString :: "int \<Rightarrow> string" where
  "numberToString i = (if i < 0 then CHR ''-'' # natToString (nat (- i)) else natToString (nat i))"

definition padStart :: "nat \<Rightarrow> char \<Rightarrow> string \<Rightarrow> string" where
  "padStart targetLength c s = replicate (targetLength - length s) c @ s"

definition startsWith :: "string \<Rightarrow> string \<Rightarrow> bool" where
  "startsWith s pre = (take (length pre) s = pre)"

text \<open>\<open>s.split(c)\<close> for a one-character separator: always at least one field.\<close>

fun split :: "char \<Rightarrow> string \<Rightarrow> string list" where
  "split c [] = [[]]"
| "split c (x # xs) =
     (if x = c then [] # split c xs
      else (case split c xs of
              [] \<Rightarrow> [[x]]
            | y # ys \<Rightarrow> (x # y) # ys))"

text \<open>\<open>a[i]\<close>, which is \<open>undefined\<close> past the end of the array.\<close>

definition elemAt :: "'a list \<Rightarrow> nat \<Rightarrow> 'a option" where
  "elemAt xs i = (if i < length xs then Some (xs ! i) else None)"

definition isWhiteSpace :: "char \<Rightarrow> bool" where
  "isWhiteSpace c = (c \<in> set [CHR 0x09, CHR 0x0A, CHR 0x0B, CHR 0x0C, CHR 0x0D, CHR 0x20, CHR 0xA0])"

definition isDigit :: "char \<Rightarrow> bool" where
  "isDigit c = (c \<in> set ''0123456789'')"

definition digitValue :: "char \<Rightarrow> nat" where
  "digitValue c = of_char c - 48"

text \<open>
  \<open>parseInt(s, 10)\<close>: leading white space is skipped, one sign is read, then the longest
  run of decimal digits; \<open>None\<close> is NaN (no digit read).
\<close>

definition decimalValue :: "string \<Rightarrow> nat" where
  "decimalValue ds = foldl (\<lambda>acc c. acc * 10 + digitValue c) 0 ds"

definition parseInt :: "string \<Rightarrow> int option" where
  "parseInt s =
     (let t = dropWhile isWhiteSpace s;
          sign = (if t \<noteq> [] \<and> hd t = CHR ''-'' then - 1 else (1::int));
          u = (if t \<noteq> [] \<and> (hd t = CHR ''-'' \<or> hd t = CHR ''+'') then tl t else t);
          ds = takeWhile isDigit u
      in if ds = [] then None else Some (sign * int (decimalValue ds)))"

text \<open>The calendar fields of \<open>new Date()\<close> that the generator reads.\<close>

record Clock =
  getFullYear :: int
  getMonth :: int
  getDate :: int

definition datePrefix :: "Clock \<Rightarrow> string" where
  "datePrefix today =
     ''PO-'' @ numberToString (getFullYear today)
       @ padStart 2 (CHR ''0'') (numberToString (getMonth today + 1))
       @ padStart 2 (CHR ''0'') (numberToString (getDate today))"

text \<open>The body of the \<open>forEach\<close>: one entry's effect on \<open>maxSequence\<close>.\<close>

definition sequenceStep :: "int \<Rightarrow> string \<Rightarrow> int" where
  "sequenceStep maxSequence po =
     (case elemAt (split (CHR ''-'') po) 2 of
        None \<Rightarrow> maxSequence
      | Some sequencePart \<Rightarrow>
          (if sequencePart = [] then maxSequence
           else (case parseInt sequencePart of
                   None \<Rightarrow> maxSequence
                 | Some sequence \<Rightarrow> if sequence > maxSequence then sequence else maxSequence)))"

definition generatePurchaseOrderNumber :: "Clock \<Rightarrow> string list \<Rightarrow> string" where
  "generatePurchaseOrderNumber today existingPONumbers =
     (let todaysPONumbers = filter (\<lambda>po. startsWith po (datePrefix today)) existingPONumbers;
          maxSequence = foldl sequenceStep 0 todaysPONumbers;
          nextSequence = maxSequence + 1
      in datePrefix today @ ''-'' @ padStart 4 (CHR ''0'') (numberToString nextSequence))"

text \<open>
  The sequence number the generator reads from one entry, if any: \<open>parseInt\<close> of the
  third field, when there is a third field and it is not empty.
\<close>

definition entrySequence :: "string \<Rightarrow> int option" where
  "entrySequence po =
     (case elemAt (split (CHR ''-'') po) 2 of
        None \<Rightarrow> None
      | Some sequencePart \<Rightarrow> if sequencePart = [] then None else parseInt sequencePart)"

text \<open>The regular expression \<open>^PO-\d{8}-\d{4}$\<close>.\<close>

definition isValidPurchaseOrderNumber :: "string \<Rightarrow> bool" where
  "isValidPurchaseOrderNumber poNumber =
     (length poNumber = 16 \<and> take 3 poNumber = ''PO-''
      \<and> list_all isDigit (take 8 (drop 3 poNumber))
      \<and> poNumber ! 11 = CHR ''-''
      \<and> list_all isDigit (drop 12 poNumber))"

text \<open>
  The highest sequence number among the entries that start with today's prefix, and 0
  when none has one: the value of \<open>maxSequence\<close> after the \<open>forEach\<close>, stated on
  the set of entries.
\<close>

definition highestSequence :: "Clock \<Rightarrow> string list \<Rightarrow> int" where
  "highestSequence today existing =
     Max (set (0 # List.map_filter entrySequence
                      (filter (\<lambda>po. startsWith po (datePrefix today)) existing)))"

section \<open>Submitting and approving shipments (components/PurchaseForm.tsx, PendingPurchases.tsx)\<close>

text \<open>
  The form's state. The date input holds either nothing or a calendar day, which
  \<open>parseDateInput\<close> turns into local midnight of that day: the field is modelled by
  that instant. \<open>editingShipment\<close> is the component's prop, absent for a new shipment.
\<close>

record FormItem =
  fiSizeCategory :: string
  fiPounds :: real
  fiCost :: real
  fiNotes :: "string option"

record ProductFormData =
  pfProductId :: string
  pfCustomProductName :: "string option"
  pfTotalPounds :: real
  pfItems :: "FormItem list"

record PurchaseForm =
  formShipper :: string
  formEstimatedArrival :: "date option"
  formProducts :: "ProductFormData list"
  editingShipment :: "Shipment option"

text \<open>What the handlers read from outside: the clock and the signed-in user.\<close>

record Env =
  envNow :: Moment
  envToday :: Clock
  envUserId :: "string option"

datatype SubmitFailure =
    MissingShipmentDetails
  | IncompleteProduct nat
  | MissingCustomName nat
  | BreakdownMismatch nat
  | QuotaLookup AppError

definition trim :: "string \<Rightarrow> string" where
  "trim s = rev (dropWhile isWhiteSpace (rev (dropWhile isWhiteSpace s)))"

text \<open>Truthiness of an optional string: present and not empty.\<close>

definition truthy :: "string option \<Rightarrow> bool" where
  "truthy v = (case v of None \<Rightarrow> False | Some s \<Rightarrow> s \<noteq> [])"

text \<open>
  The validation loop of \<open>handleSubmit\<close>; \<open>i\<close> is the index of the head of the list.
  Each failure is an \<open>alert\<close> followed by \<open>return\<close>.
\<close>

fun validateProducts :: "nat \<Rightarrow> ProductFormData list \<Rightarrow> SubmitFailure option" where
  "validateProducts i [] = None"
| "validateProducts i (product # rest) =
     (if pfProductId product = [] \<or> pfTotalPounds product \<le> 0
      then Some (IncompleteProduct (i + 1))
      else if pfProductId product = ''other''
              \<and> \<not> truthy (map_option trim (pfCustomProductName product))
      then Some (MissingCustomName (i + 1))
      else if \<bar>foldl (\<lambda>s item. s + fiPounds item) 0 (pfItems product) - pfTotalPounds product\<bar> > 0.01
      then Some (BreakdownMismatch (i + 1))
      else validateProducts (i + 1) rest)"

text \<open>
  The quota loop of \<open>handleSubmit\<close>, with its two \<open>break\<close>s; the result is the final
  value of \<open>requiresApproval\<close>, or the exception of \<open>getQuotaStatus\<close>.
\<close>

fun requiresApproval :: "AppState \<Rightarrow> date \<Rightarrow> ProductFormData list \<Rightarrow> AppError + bool" where
  "requiresApproval state weekStart [] = Inr False"
| "requiresApproval state weekStart (product # rest) =
     (if pfProductId product = ''other'' then requiresApproval state weekStart rest
      else (case getQuotaStatus state (pfProductId product) (Some weekStart) of
              Inl e \<Rightarrow> Inl e
            | Inr currentQuotaStatus \<Rightarrow>
                (if status currentQuotaStatus = NearMax \<or> status currentQuotaStatus = Over
                 then Inr True
                 else if currentTotal currentQuotaStatus + pfTotalPounds product
                           > maxQuota currentQuotaStatus
                 then Inr True
                 else requiresApproval state weekStart rest)))"

definition existingPONumbers :: "AppState \<Rightarrow> string list" where
  "existingPONumbers state =
     map (\<lambda>s. the (purchaseOrderNumber s))
       (filter (\<lambda>s. approvalStatus s = Approved \<and> truthy (purchaseOrderNumber s)) (shipments state))"

definition buildItems :: "string \<Rightarrow> nat \<Rightarrow> FormItem list \<Rightarrow> PurchaseItem list" where
  "buildItems shipmentId productIndex fitems =
     map (\<lambda>(itemIndex, item).
            \<lparr> itemId = shipmentId @ ''_'' @ natToString productIndex @ ''_'' @ natToString itemIndex,
              sizeCategory = fiSizeCategory item, pounds = fiPounds item,
              cost = fiCost item, itemNotes = fiNotes item \<rparr>)
       (enumerate 0 fitems)"

definition buildProducts :: "string \<Rightarrow> ProductFormData list \<Rightarrow> ProductPurchase list" where
  "buildProducts shipmentId ps =
     map (\<lambda>(productIndex, product).
            \<lparr> ppId = shipmentId @ ''_'' @ natToString productIndex,
              ppProductId = pfProductId product,
              ppCustomProductName =
                (if pfProductId product = ''other'' then pfCustomProductName product else None),
              ppTotalPounds = pfTotalPounds product,
              ppItems = buildItems shipmentId productIndex (pfItems product) \<rparr>)
       (enumerate 0 ps)"

text \<open>
  The shipment object \<open>handleSubmit\<close> builds. \<open>a || b\<close> on strings takes \<open>b\<close> when \<open>a\<close>
  is missing or empty; a \<open>Date\<close> is always truthy.
\<close>

definition buildShipment ::
  "Env \<Rightarrow> PurchaseForm \<Rightarrow> date \<Rightarrow> ApprovalStatus \<Rightarrow> string option \<Rightarrow> Shipment" where
  "buildShipment env form estimatedArrivalDate newStatus poNumber =
     (let editing = editingShipment form;
          shipmentId = (case editing of
                          Some e \<Rightarrow> if shId e \<noteq> [] then shId e else numberToString (newDate (envNow env))
                        | None \<Rightarrow> numberToString (newDate (envNow env)))
      in \<lparr> shId = shipmentId,
           shipper = trim (formShipper form),
           estimatedArrival = estimatedArrivalDate,
           purchaseDate = (case editing of Some e \<Rightarrow> purchaseDate e | None \<Rightarrow> newDate (envNow env)),
           weekStartDate = getWeekStart estimatedArrivalDate,
           shProducts = buildProducts shipmentId (formProducts form),
           createdAt = (case editing of Some e \<Rightarrow> createdAt e | None \<Rightarrow> newDate (envNow env)),
           approvalStatus = newStatus,
           purchaseOrderNumber = poNumber,
           rejectedAt = None,
           purchaserId = (case editing of
                            Some e \<Rightarrow> if truthy (purchaserId e) then purchaserId e else envUserId env
                          | None \<Rightarrow> envUserId env) \<rparr>)"

text \<open>
  \<open>handleSubmit\<close>: the shipment built and the state after the dispatch, or the reason
  nothing was dispatched. Notifications are sent after the dispatch and do not touch
  the state.
\<close>

definition handleSubmit :: "Env \<Rightarrow> AppState \<Rightarrow> PurchaseForm \<Rightarrow> SubmitFailure + (Shipment \<times> AppState)" where
  "handleSubmit env state form =
     (case formEstimatedArrival form of
        None \<Rightarrow> Inl MissingShipmentDetails
      | Some estimatedArrivalDate \<Rightarrow>
          (if trim (formShipper form) = [] then Inl MissingShipmentDetails
           else (case validateProducts 0 (formProducts form) of
                   Some failure \<Rightarrow> Inl failure
                 | None \<Rightarrow>
                     (case requiresApproval state (getWeekStart estimatedArrivalDate) (formProducts form) of
                        Inl e \<Rightarrow> Inl (QuotaLookup e)
                      | Inr required \<Rightarrow>
                          (let newStatus = (if required then Pending else Approved);
                               poNumber = (if newStatus = Approved
                                           then Some (generatePurchaseOrderNumber (envToday env) (existingPONumbers state))
                                           else None);
                               shipment = buildShipment env form estimatedArrivalDate newStatus poNumber
                           in Inr (shipment,
                                   appReducer (envNow env) state
                                     (if editingShipment form \<noteq> None
                                      then EDIT_SHIPMENT shipment else ADD_SHIPMENT shipment)))))))"

text \<open>\<open>handleApproveShipment\<close>: the state after its dispatch.\<close>

definition handleApproveShipment :: "Env \<Rightarrow> AppState \<Rightarrow> Shipment \<Rightarrow> AppState" where
  "handleApproveShipment env state shipment =
     (let poNumber = generatePurchaseOrderNumber (envToday env) (existingPONumbers state);
          approvedShipment = shipment\<lparr> approvalStatus := Approved, purchaseOrderNumber := Some poNumber \<rparr>
      in appReducer (envNow env) state (EDIT_SHIPMENT approvedShipment))"

section \<open>A shipment's weight in a quota bucket\<close>

text \<open>
  The pounds a shipment carries for one product in one week: what its product lines of
  that product add up to when the shipment arrives in that week, and nothing otherwise.
\<close>

definition shipmentWeight :: "Shipment \<Rightarrow> string \<Rightarrow> int \<Rightarrow> real" where
  "shipmentWeight s productId weekKey =
     (if getWeekKey (estimatedArrival s) = weekKey
      then sum_list (map ppTotalPounds (filter (\<lambda>p. ppProductId p = productId) (shProducts s)))
      else 0)"

section \<open>Example data\<close>

text \<open>
  A two-product catalogue, one shipment of tuna arriving on 1 January 2025, the form that
  enters such a shipment, and the clock of that day. The theorems below are instantiated
  on these.
\<close>

definition exProducts :: "Product list" where
  "exProducts = [\<lparr> prodId = ''tuna'', prodName = ''Tuna'', prodMinQuota = 100, prodMaxQuota = 500 \<rparr>,
                 \<lparr> prodId = ''other'', prodName = ''Other'', prodMinQuota = 0, prodMaxQuota = 1000 \<rparr>]"

definition exArrival :: date where
  "exArrival = 1735689600000"

text \<open>A clock reading with no change of the local offset in the thirty days before it.\<close>

definition exAt :: "date \<Rightarrow> Moment" where
  "exAt t = \<lparr> newDate = t, thirtyDaysAgo = t - 30 * dayMs \<rparr>"

definition exEnv :: Env where
  "exEnv = \<lparr> envNow = exAt 1735700000000,
             envToday = \<lparr> getFullYear = 2025, getMonth = 0, getDate = 1 \<rparr>,
             envUserId = Some ''u1'' \<rparr>"

definition exShipment :: "real \<Rightarrow> ApprovalStatus \<Rightarrow> string option \<Rightarrow> date option \<Rightarrow> Shipment" where
  "exShipment lbs st po rej =
     \<lparr> shId = ''s1'', shipper = ''Dock'', estimatedArrival = exArrival, purchaseDate = 1735600000000,
       weekStartDate = getWeekStart exArrival,
       shProducts = [\<lparr> ppId = ''s1_0'', ppProductId = ''tuna'', ppCustomProductName = None,
                       ppTotalPounds = lbs, ppItems = [] \<rparr>],
       createdAt = 1735600000000, approvalStatus = st, purchaseOrderNumber = po,
       rejectedAt = rej, purchaserId = Some ''u1'' \<rparr>"

definition exEmpty :: AppState where
  "exEmpty = \<lparr> products = exProducts, purchases = [], shipments = [], weeklyQuotas = [],
               viewingWeekStart = getWeekStart exArrival \<rparr>"

definition exStored :: "Shipment \<Rightarrow> AppState" where
  "exStored s = appReducer (exAt 0) exEmpty (ADD_SHIPMENT s)"

definition exForm :: "real \<Rightarrow> Shipment option \<Rightarrow> PurchaseForm" where
  "exForm lbs editing =
     \<lparr> formShipper = ''Dock'', formEstimatedArrival = Some exArrival,
       formProducts = [\<lparr> pfProductId = ''tuna'', pfCustomProductName = None, pfTotalPounds = lbs,
                         pfItems = [\<lparr> fiSizeCategory = ''70+ lbs'', fiPounds = lbs, fiCost = 0,
                                      fiNotes = None \<rparr>] \<rparr>],
       editingShipment = editing \<rparr>"

definition exSweepNow :: date where
  "exSweepNow = 1738368000000"

text \<open>
  The clock of a sweep whose thirty calendar days span a change of the local offset: they
  are an hour short of thirty days of elapsed time.
\<close>

definition exSweepClock :: Moment where
  "exSweepClock = \<lparr> newDate = exSweepNow, thirtyDaysAgo = exSweepNow - 30 * dayMs + 3600000 \<rparr>"

definition exRejectedDaysAgo :: "int \<Rightarrow> Shipment" where
  "exRejectedDaysAgo n =
     (exShipment 50 Rejected None (Some (exSweepNow - n * dayMs)))\<lparr> shId := ''r'' @ numberToString n \<rparr>"

definition exSweepState :: AppState where
  "exSweepState = exEmpty\<lparr> shipments :=
      [exRejectedDaysAgo 31, exRejectedDaysAgo 29,
       exShipment 50 Pending None None,
       (exShipment 50 Approved (Some ''PO-20250101-0001'') None)\<lparr> shId := ''a1'' \<rparr>,
       (exShipment 50 Rejected None None)\<lparr> shId := ''u1'' \<rparr>] \<rparr>"

text \<open>A new shipment entered as two lines of 300 pounds of tuna, and the shipment built from it.\<close>

definition exTwoLines :: PurchaseForm where
  "exTwoLines =
     \<lparr> formShipper = ''Dock'', formEstimatedArrival = Some exArrival,
       formProducts =
         [\<lparr> pfProductId = ''tuna'', pfCustomProductName = None, pfTotalPounds = 300,
             pfItems = [\<lparr> fiSizeCategory = ''70+ lbs'', fiPounds = 300, fiCost = 0, fiNotes = None \<rparr>] \<rparr>,
          \<lparr> pfProductId = ''tuna'', pfCustomProductName = None, pfTotalPounds = 300,
             pfItems = [\<lparr> fiSizeCategory = ''60+ lbs'', fiPounds = 300, fiCost = 0, fiNotes = None \<rparr>] \<rparr>],
       editingShipment = None \<rparr>"

definition exTwoLinesShipment :: Shipment where
  "exTwoLinesShipment =
     buildShipment exEnv exTwoLines exArrival Approved (Some ''PO-20250101-0001'')"

definition exOverride :: WeeklyQuota where
  "exOverride = \<lparr> wqId = ''w1'', wqProductId = ''tuna'', wqWeekStartDate = getWeekStart exArrival,
                   wqCurrentTotal = 0, wqMinQuota = 10, wqMaxQuota = 20 \<rparr>"

definition exSubmitted :: "real \<Rightarrow> ApprovalStatus \<Rightarrow> string option \<Rightarrow> Shipment" where
  "exSubmitted lbs st po = buildShipment exEnv (exForm lbs None) exArrival st po"

definition exEdited :: "real \<Rightarrow> ApprovalStatus \<Rightarrow> string option \<Rightarrow> Shipment" where
  "exEdited lbs st po =
     buildShipment exEnv
       (exForm lbs (Some (exShipment 50 Approved (Some ''PO-20250101-0001'') None))) exArrival st po"

section \<open>Quota status\<close>

lemma foldl_add_sum_list:
  "foldl (\<lambda>s x. s + f x) a xs = a + sum_list (map f xs)"
  for a :: real
  by (induction xs arbitrary: a) (simp_all add: algebra_simps)

lemma bucketTotal_sum_list:
  "bucketTotal ps productId weekKey =
     sum_list (map puTotalPounds
       (filter (\<lambda>p. puProductId p = productId \<and> getWeekKey (puEstimatedArrival p) = weekKey) ps))"
  by (simp add: bucketTotal_def foldl_add_sum_list)

lemmas ex_defs =
  exProducts_def exArrival_def exAt_def exEnv_def exShipment_def exEmpty_def exStored_def exForm_def

lemma ex_week_start: "getWeekStart exArrival = 1735430400000"
  by (simp add: getWeekStart_def getDay_def dayMs_def exArrival_def)

lemma ex_week_key: "getWeekKey 1735430400000 = 20086" "getWeekKey 1735689600000 = 20086"
  by (simp_all add: getWeekKey_def getWeekStart_def getDay_def dayMs_def)

lemma ex_trim: "trim ''Dock'' = ''Dock''"
  by (simp add: trim_def isWhiteSpace_def)

lemma ex_next_po:
  "generatePurchaseOrderNumber (envToday exEnv) [''PO-20250101-0001''] = ''PO-20250101-0002''"
  by code_simp

lemma ex_first_po:
  "generatePurchaseOrderNumber (envToday exEnv) [] = ''PO-20250101-0001''"
  by code_simp

text \<open>
  Claim C4. For a product of the catalogue, \<open>getQuotaStatus\<close> returns the sum of the
  bucket's pounds as \<open>currentTotal\<close>, the product's bounds, the percentage
  \<open>currentTotal / maxQuota * 100\<close> (0 when \<open>maxQuota\<close> is not positive), and the status
  of the first rule that matches: over, near-max, good, under. A total equal to
  \<open>maxQuota\<close> is never over; \<open>maxQuota + 0.01\<close> always is.
\<close>

theorem getQuotaStatus_rules:
  assumes "find (\<lambda>p. prodId p = productId) (products state) = Some product"
  shows "\<exists>q. getQuotaStatus state productId (Some weekStart) = Inr q
    \<and> currentTotal q = sum_list (map puTotalPounds
         (filter (\<lambda>p. puProductId p = productId
                     \<and> getWeekKey (puEstimatedArrival p) = getWeekKey weekStart) (purchases state)))
    \<and> minQuota q = prodMinQuota product \<and> maxQuota q = prodMaxQuota product
    \<and> percentage q = (if maxQuota q > 0 then currentTotal q / maxQuota q * 100 else 0)
    \<and> status q = (if currentTotal q > maxQuota q then Over
                   else if percentage q \<ge> 90 then NearMax
                   else if currentTotal q \<ge> minQuota q then Good
                   else Under)
    \<and> (\<forall>pct. classify (maxQuota q) pct product \<noteq> Over)
    \<and> (\<forall>pct. classify (maxQuota q + 0.01) pct product = Over)"
  using assms
  by (simp add: getQuotaStatus_def Let_def classify_def bucketTotal_sum_list)

text \<open>
  The rules at work: with 500 pounds of tuna committed against a maximum of 500, the
  percentage is 100 and the status is near-max.
\<close>

theorem getQuotaStatus_rules_witness:
  "find (\<lambda>p. prodId p = ''tuna'')
      (products (exStored (exShipment 500 Approved (Some ''PO-20250101-0001'') None)))
     = Some (hd exProducts)
   \<and> (\<exists>q. getQuotaStatus (exStored (exShipment 500 Approved (Some ''PO-20250101-0001'') None))
              ''tuna'' (Some exArrival) = Inr q
          \<and> currentTotal q = 500 \<and> maxQuota q = 500 \<and> percentage q = 100 \<and> status q = NearMax)"
proof -
  let ?st = "exStored (exShipment 500 Approved (Some ''PO-20250101-0001'') None)"
  have found: "find (\<lambda>p. prodId p = ''tuna'') (products ?st) = Some (hd exProducts)"
    by (simp add: ex_defs)
  have total: "sum_list (map puTotalPounds
         (filter (\<lambda>p. puProductId p = ''tuna''
                     \<and> getWeekKey (puEstimatedArrival p) = getWeekKey exArrival) (purchases ?st))) = 500"
    by (simp add: ex_defs shipmentPurchases_def)
  from getQuotaStatus_rules [OF found, of exArrival] obtain q where
    q: "getQuotaStatus ?st ''tuna'' (Some exArrival) = Inr q"
       "currentTotal q = sum_list (map puTotalPounds
         (filter (\<lambda>p. puProductId p = ''tuna''
                     \<and> getWeekKey (puEstimatedArrival p) = getWeekKey exArrival) (purchases ?st)))"
       "maxQuota q = prodMaxQuota (hd exProducts)"
       "percentage q = (if maxQuota q > 0 then currentTotal q / maxQuota q * 100 else 0)"
       "status q = (if currentTotal q > maxQuota q then Over
                   else if percentage q \<ge> 90 then NearMax
                   else if currentTotal q \<ge> minQuota q then Good
                   else Under)"
    by blast
  have "maxQuota q = 500" using q(3) by (simp add: exProducts_def)
  moreover have "currentTotal q = 500" using q(2) total by simp
  ultimately have "percentage q = 100" "status q = NearMax" using q(4,5) by simp_all
  with found q(1) \<open>maxQuota q = 500\<close> \<open>currentTotal q = 500\<close> show ?thesis by blast
qed

section \<open>Retention sweep\<close>



text \<open>
  Claim C10. A rejected shipment with no \<open>rejectedAt\<close> stays in the store through any
  sequence of sweeps, whatever the clock reads when they run.
\<close>

theorem sweep_keeps_undated:
  assumes "s \<in> set (shipments state)" and "approvalStatus s = Rejected" and "rejectedAt s = None"
  shows "s \<in> set (shipments (foldl (\<lambda>st now. appReducer now st DELETE_OLD_REJECTED) state nows))"
  using assms by (induction nows arbitrary: state) simp_all

text \<open>
  The undated rejected shipment of the example store outlives three sweeps, the last
  of them about eleven years later.
\<close>

theorem sweep_keeps_undated_witness:
  "(exShipment 50 Rejected None None)\<lparr> shId := ''u1'' \<rparr>
     \<in> set (shipments (foldl (\<lambda>st now. appReducer now st DELETE_OLD_REJECTED) exSweepState
                [exSweepClock, exAt (exSweepNow + 400 * dayMs), exAt (exSweepNow + 4000 * dayMs)]))"
proof -
  let ?u = "(exShipment 50 Rejected None None)\<lparr> shId := ''u1'' \<rparr>"
  have a: "?u \<in> set (shipments exSweepState)"
    by (simp add: exSweepState_def)
  have b: "approvalStatus ?u = Rejected"
    by (simp add: exShipment_def)
  have c: "rejectedAt ?u = None"
    by (simp add: exShipment_def)
  show ?thesis by (rule sweep_keeps_undated [OF a b c])
qed

section \<open>Weekly quota records\<close>

text \<open>
  Claim C6, amended. \<open>getQuotaStatus\<close> never reads the weekly quota records: whatever
  records the state holds, and after any \<open>SET_WEEKLY_QUOTA\<close> (which does store the
  record), its result is the same, and the bounds it reports are the static
  \<open>minQuota\<close> and \<open>maxQuota\<close> of the catalogue product.
\<close>

theorem weekly_quota_not_consulted:
  "getQuotaStatus (state\<lparr> weeklyQuotas := qs \<rparr>) productId weekStartArg
     = getQuotaStatus state productId weekStartArg
   \<and> getQuotaStatus (appReducer now state (SET_WEEKLY_QUOTA quota)) productId weekStartArg
     = getQuotaStatus state productId weekStartArg
   \<and> quota \<in> set (weeklyQuotas (appReducer now state (SET_WEEKLY_QUOTA quota)))
   \<and> (case getQuotaStatus state productId weekStartArg of
         Inl e \<Rightarrow> find (\<lambda>p. prodId p = productId) (products state) = None
       | Inr q \<Rightarrow> find (\<lambda>p. prodId p = productId) (products state) = Some (qsProduct q)
                 \<and> minQuota q = prodMinQuota (qsProduct q)
                 \<and> maxQuota q = prodMaxQuota (qsProduct q))"
proof -
  have a: "getQuotaStatus (state\<lparr> weeklyQuotas := qs \<rparr>) productId weekStartArg
     = getQuotaStatus state productId weekStartArg" for qs
    by (simp add: getQuotaStatus_def cong: option.case_cong)
  have b: "getQuotaStatus (appReducer now state (SET_WEEKLY_QUOTA quota)) productId weekStartArg
     = getQuotaStatus state productId weekStartArg"
    by (simp add: getQuotaStatus_def cong: option.case_cong)
  have c: "quota \<in> set (weeklyQuotas (appReducer now state (SET_WEEKLY_QUOTA quota)))"
    by (auto simp: list_ex_iff)
  have d: "(case getQuotaStatus state productId weekStartArg of
         Inl e \<Rightarrow> find (\<lambda>p. prodId p = productId) (products state) = None
       | Inr q \<Rightarrow> find (\<lambda>p. prodId p = productId) (products state) = Some (qsProduct q)
                 \<and> minQuota q = prodMinQuota (qsProduct q)
                 \<and> maxQuota q = prodMaxQuota (qsProduct q))"
    by (simp add: getQuotaStatus_def Let_def split: option.splits)
  from a b c d show ?thesis by blast
qed

text \<open>
  Claim C6 as stated fails: with an override of 10 to 20 pounds stored for tuna in the
  week of the arrival and 50 pounds committed, the status is computed against the
  product's own 100 to 500 pounds and is \<open>Under\<close>, not over.
\<close>

theorem weekly_quota_counterexample:
  "exOverride \<in> set (weeklyQuotas (appReducer (exAt 0) (exStored (exShipment 50 Approved (Some ''PO-20250101-0001'') None))
                                       (SET_WEEKLY_QUOTA exOverride)))
   \<and> wqProductId exOverride = ''tuna''
   \<and> wqWeekStartDate exOverride = getWeekStart exArrival
   \<and> wqMinQuota exOverride = 10 \<and> wqMaxQuota exOverride = 20
   \<and> getQuotaStatus (appReducer (exAt 0) (exStored (exShipment 50 Approved (Some ''PO-20250101-0001'') None))
                         (SET_WEEKLY_QUOTA exOverride)) ''tuna'' (Some (getWeekStart exArrival))
       = Inr \<lparr> qsProduct = hd exProducts, currentTotal = 50, minQuota = 100, maxQuota = 500,
               percentage = 10, status = Under \<rparr>"
  by (simp add: ex_defs exOverride_def getQuotaStatus_def Let_def classify_def bucketTotal_def
        shipmentPurchases_def getWeekKey_def getWeekStart_def getDay_def dayMs_def)

section \<open>Reject, unreject, approve\<close>

lemma bucketTotal_append:
  "bucketTotal (xs @ ys) productId weekKey
     = bucketTotal xs productId weekKey + bucketTotal ys productId weekKey"
  by (simp add: bucketTotal_sum_list)


lemma bucketTotal_shipmentPurchases:
  "approvalStatus s \<noteq> Rejected \<Longrightarrow>
     bucketTotal (shipmentPurchases s) productId weekKey = shipmentWeight s productId weekKey"
  by (simp add: bucketTotal_sum_list shipmentPurchases_def shipmentWeight_def filter_map comp_def)

lemma find_Some_holds: "find P xs = Some x \<Longrightarrow> P x \<and> x \<in> set xs"
  by (induction xs) (auto split: if_splits)

lemma find_None_ids: "find (\<lambda>x. shId x = sid) xs = None \<Longrightarrow> \<forall>x \<in> set xs. shId x \<noteq> sid"
  by (induction xs) (auto split: if_splits)

lemma find_replaced:
  "find (\<lambda>x. shId x = sid) xs = Some s \<Longrightarrow> shId u = sid \<Longrightarrow>
     find (\<lambda>x. shId x = sid) (map (\<lambda>x. if shId x = sid then u else x) xs) = Some u"
  by (induction xs) (auto split: if_splits)

lemma reject_found:
  "find (\<lambda>x. shId x = sid) (shipments state) = Some s \<Longrightarrow>
     appReducer now state (REJECT_SHIPMENT sid)
       = state\<lparr> shipments := map (\<lambda>x. if shId x = sid
                                       then s\<lparr> approvalStatus := Rejected, rejectedAt := Some (newDate now) \<rparr>
                                       else x) (shipments state),
                 purchases := filter (\<lambda>p. puShipmentId p \<noteq> Some sid) (purchases state) \<rparr>"
  by (simp add: Let_def)

lemma unreject_found:
  "find (\<lambda>x. shId x = sid) (shipments state) = Some s \<Longrightarrow> approvalStatus s = Rejected \<Longrightarrow>
     appReducer now state (UNREJECT_SHIPMENT sid)
       = state\<lparr> shipments := map (\<lambda>x. if shId x = sid
                                       then s\<lparr> approvalStatus := Pending, rejectedAt := None \<rparr>
                                       else x) (shipments state) \<rparr>"
  by (simp add: Let_def)

lemma handleSubmit_dispatches:
  assumes "formEstimatedArrival form = Some d"
      and "trim (formShipper form) \<noteq> []"
      and "validateProducts 0 (formProducts form) = None"
      and "requiresApproval state (getWeekStart d) (formProducts form) = Inr required"
  shows "handleSubmit env state form =
           Inr (buildShipment env form d (if required then Pending else Approved)
                  (if required then None
                   else Some (generatePurchaseOrderNumber (envToday env) (existingPONumbers state))),
                appReducer (envNow env) state
                  ((if editingShipment form \<noteq> None then EDIT_SHIPMENT else ADD_SHIPMENT)
                     (buildShipment env form d (if required then Pending else Approved)
                        (if required then None
                         else Some (generatePurchaseOrderNumber (envToday env) (existingPONumbers state))))))"
  using assms by (simp add: handleSubmit_def Let_def del: appReducer.simps)




text \<open>
  Claim C7, amended. The reducer signals no error. For an id that no stored shipment
  has, \<open>REJECT_SHIPMENT\<close> and \<open>UNREJECT_SHIPMENT\<close> return the state as it is and
  \<open>DELETE_SHIPMENT\<close> leaves the shipments as they are (and the whole state, when no
  purchase carries that id); \<open>UNREJECT_SHIPMENT\<close> of a shipment that is not rejected
  returns the state as it is.
\<close>

theorem transitions_are_silent:
  "(find (\<lambda>x. shId x = sid) (shipments state) = None \<longrightarrow>
       appReducer now state (REJECT_SHIPMENT sid) = state
     \<and> appReducer now state (UNREJECT_SHIPMENT sid) = state
     \<and> shipments (appReducer now state (DELETE_SHIPMENT sid)) = shipments state
     \<and> (filter (\<lambda>p. puShipmentId p = Some sid) (purchases state) = [] \<longrightarrow>
          appReducer now state (DELETE_SHIPMENT sid) = state))
   \<and> (\<forall>s. find (\<lambda>x. shId x = sid) (shipments state) = Some s \<and> approvalStatus s \<noteq> Rejected \<longrightarrow>
          appReducer now state (UNREJECT_SHIPMENT sid) = state)"
proof -
  have del: "shipments (appReducer now state (DELETE_SHIPMENT sid)) = shipments state"
    if "find (\<lambda>x. shId x = sid) (shipments state) = None"
    using find_None_ids [OF that] by (simp add: filter_id_conv)
  have del_all: "appReducer now state (DELETE_SHIPMENT sid) = state"
    if "find (\<lambda>x. shId x = sid) (shipments state) = None"
      and "filter (\<lambda>p. puShipmentId p = Some sid) (purchases state) = []"
  proof -
    have "filter (\<lambda>s. shId s \<noteq> sid) (shipments state) = shipments state"
      using find_None_ids [OF that(1)] by (simp add: filter_id_conv)
    moreover have "filter (\<lambda>p. puShipmentId p \<noteq> Some sid) (purchases state) = purchases state"
      using that(2) by (simp add: filter_id_conv filter_empty_conv)
    ultimately show ?thesis by simp
  qed
  show ?thesis
    using del del_all by simp
qed

text \<open>
  On a store holding the pending shipment \<open>s1\<close>: the three transitions on the unknown
  id \<open>zz\<close>, and unrejecting \<open>s1\<close>, all return the store as it is.
\<close>

theorem transitions_are_silent_witness:
  "find (\<lambda>x. shId x = ''zz'') (shipments (exStored (exShipment 50 Pending None None))) = None
   \<and> filter (\<lambda>p. puShipmentId p = Some ''zz'') (purchases (exStored (exShipment 50 Pending None None))) = []
   \<and> appReducer (exAt 5) (exStored (exShipment 50 Pending None None)) (REJECT_SHIPMENT ''zz'')
       = exStored (exShipment 50 Pending None None)
   \<and> appReducer (exAt 5) (exStored (exShipment 50 Pending None None)) (UNREJECT_SHIPMENT ''zz'')
       = exStored (exShipment 50 Pending None None)
   \<and> appReducer (exAt 5) (exStored (exShipment 50 Pending None None)) (DELETE_SHIPMENT ''zz'')
       = exStored (exShipment 50 Pending None None)
   \<and> find (\<lambda>x. shId x = ''s1'') (shipments (exStored (exShipment 50 Pending None None)))
       = Some (exShipment 50 Pending None None)
   \<and> approvalStatus (exShipment 50 Pending None None) = Pending
   \<and> appReducer (exAt 5) (exStored (exShipment 50 Pending None None)) (UNREJECT_SHIPMENT ''s1'')
       = exStored (exShipment 50 Pending None None)"
proof -
  let ?s = "exShipment 50 Pending None None"
  let ?st = "exStored ?s"
  have absent: "find (\<lambda>x. shId x = ''zz'') (shipments ?st) = None"
    by (simp add: exStored_def exEmpty_def exShipment_def)
  have orphans: "filter (\<lambda>p. puShipmentId p = Some ''zz'') (purchases ?st) = []"
    by (simp add: exStored_def exEmpty_def exShipment_def shipmentPurchases_def)
  have found: "find (\<lambda>x. shId x = ''s1'') (shipments ?st) = Some ?s"
    by (simp add: exStored_def exEmpty_def exShipment_def)
  have pen: "approvalStatus ?s = Pending"
    by (simp add: exShipment_def)
  then have live: "approvalStatus ?s \<noteq> Rejected"
    by simp
  note gone = transitions_are_silent [where sid = "''zz''" and state = ?st and now = "exAt 5",
      THEN conjunct1, THEN mp, OF absent]
  note stay = transitions_are_silent [where sid = "''s1''" and state = ?st and now = "exAt 5",
      THEN conjunct2, THEN spec, THEN mp, OF conjI, OF found live]
  show ?thesis
    by (intro conjI absent orphans found pen stay gone [THEN conjunct1]
          gone [THEN conjunct2, THEN conjunct1]
          gone [THEN conjunct2, THEN conjunct2, THEN conjunct2, THEN mp, OF orphans])
qed

text \<open>
  Claim C7 as stated fails: approving a shipment that is already approved is not refused
  and does not leave the store unchanged. The stored shipment gets a second order
  number.
\<close>

theorem approve_twice_counterexample:
  "find (\<lambda>x. shId x = ''s1'')
       (shipments (exStored (exShipment 50 Approved (Some ''PO-20250101-0001'') None)))
     = Some (exShipment 50 Approved (Some ''PO-20250101-0001'') None)
   \<and> approvalStatus (exShipment 50 Approved (Some ''PO-20250101-0001'') None) = Approved
   \<and> map purchaseOrderNumber
         (shipments (handleApproveShipment exEnv
            (exStored (exShipment 50 Approved (Some ''PO-20250101-0001'') None))
            (exShipment 50 Approved (Some ''PO-20250101-0001'') None)))
       = [Some ''PO-20250101-0002'']
   \<and> handleApproveShipment exEnv
         (exStored (exShipment 50 Approved (Some ''PO-20250101-0001'') None))
         (exShipment 50 Approved (Some ''PO-20250101-0001'') None)
       \<noteq> exStored (exShipment 50 Approved (Some ''PO-20250101-0001'') None)"
proof -
  let ?s = "exShipment 50 Approved (Some ''PO-20250101-0001'') None"
  let ?st = "exStored ?s"
  have found: "find (\<lambda>x. shId x = ''s1'') (shipments ?st) = Some ?s"
    by (simp add: exStored_def exEmpty_def exShipment_def)
  have app: "approvalStatus ?s = Approved"
    by (simp add: exShipment_def)
  have existing: "existingPONumbers ?st = [''PO-20250101-0001'']"
    by (simp add: existingPONumbers_def exStored_def exEmpty_def exShipment_def truthy_def)
  have after: "map purchaseOrderNumber (shipments (handleApproveShipment exEnv ?st ?s))
       = [Some ''PO-20250101-0002'']"
    by (simp add: handleApproveShipment_def Let_def existing ex_next_po)
       (simp add: exStored_def exEmpty_def exShipment_def)
  have before: "map purchaseOrderNumber (shipments ?st) = [Some ''PO-20250101-0001'']"
    by (simp add: exStored_def exEmpty_def exShipment_def)
  have "handleApproveShipment exEnv ?st ?s \<noteq> ?st"
  proof
    assume "handleApproveShipment exEnv ?st ?s = ?st"
    then have "map purchaseOrderNumber (shipments (handleApproveShipment exEnv ?st ?s))
        = map purchaseOrderNumber (shipments ?st)"
      by (rule arg_cong)
    then show False
      unfolding after before by simp
  qed
  with found app after show ?thesis by (intro conjI)
qed

text \<open>
  Claim C8, amended. A shipment added as pending has its derived purchases appended to
  the index, one per product line, and every bucket total grows by its weight. A stored
  shipment that is rejected and then unrejected is pending and has no purchase left in
  the index.
\<close>

theorem pending_shipments_and_quota:
  assumes found: "find (\<lambda>x. shId x = sid) (shipments state) = Some r"
  shows "purchases (appReducer now state (ADD_SHIPMENT (s\<lparr> approvalStatus := Pending \<rparr>)))
           = purchases state @ shipmentPurchases (s\<lparr> approvalStatus := Pending \<rparr>)
       \<and> map puTotalPounds (shipmentPurchases (s\<lparr> approvalStatus := Pending \<rparr>))
           = map ppTotalPounds (shProducts s)
       \<and> bucketTotal (purchases (appReducer now state (ADD_SHIPMENT (s\<lparr> approvalStatus := Pending \<rparr>))))
             productId weekKey
           = bucketTotal (purchases state) productId weekKey + shipmentWeight s productId weekKey
       \<and> find (\<lambda>x. shId x = sid)
             (shipments (appReducer unrejectTime (appReducer rejectTime state (REJECT_SHIPMENT sid))
                           (UNREJECT_SHIPMENT sid)))
           = Some (r\<lparr> approvalStatus := Pending, rejectedAt := None \<rparr>)
       \<and> filter (\<lambda>p. puShipmentId p = Some sid)
             (purchases (appReducer unrejectTime (appReducer rejectTime state (REJECT_SHIPMENT sid))
                           (UNREJECT_SHIPMENT sid)))
           = []"
proof -
  let ?p = "s\<lparr> approvalStatus := Pending \<rparr>"
  let ?rej = "r\<lparr> approvalStatus := Rejected, rejectedAt := Some (newDate rejectTime) \<rparr>"
  let ?pen = "r\<lparr> approvalStatus := Pending, rejectedAt := None \<rparr>"
  define st1 where "st1 = appReducer rejectTime state (REJECT_SHIPMENT sid)"
  define st2 where "st2 = appReducer unrejectTime st1 (UNREJECT_SHIPMENT sid)"
  have a: "purchases (appReducer now state (ADD_SHIPMENT ?p)) = purchases state @ shipmentPurchases ?p"
    by simp
  have b: "map puTotalPounds (shipmentPurchases ?p) = map ppTotalPounds (shProducts s)"
    by (simp add: shipmentPurchases_def comp_def)
  have "bucketTotal (shipmentPurchases ?p) productId weekKey = shipmentWeight ?p productId weekKey"
    by (rule bucketTotal_shipmentPurchases) simp
  also have "\<dots> = shipmentWeight s productId weekKey"
    by (simp add: shipmentWeight_def)
  finally have c: "bucketTotal (purchases (appReducer now state (ADD_SHIPMENT ?p))) productId weekKey
      = bucketTotal (purchases state) productId weekKey + shipmentWeight s productId weekKey"
    by (simp only: a bucketTotal_append)
  have sid: "shId r = sid"
    using find_Some_holds [OF found] by simp
  have st1: "st1 = state\<lparr> shipments := map (\<lambda>x. if shId x = sid then ?rej else x) (shipments state),
                          purchases := filter (\<lambda>p. puShipmentId p \<noteq> Some sid) (purchases state) \<rparr>"
    unfolding st1_def by (rule reject_found [OF found])
  have f1: "find (\<lambda>x. shId x = sid) (shipments st1) = Some ?rej"
    using find_replaced [OF found, of ?rej] sid by (simp add: st1)
  have st2: "st2 = st1\<lparr> shipments := map (\<lambda>x. if shId x = sid then ?pen else x) (shipments st1) \<rparr>"
    using unreject_found [OF f1, of unrejectTime] by (simp add: st2_def)
  have d: "find (\<lambda>x. shId x = sid) (shipments st2) = Some ?pen"
    using find_replaced [OF f1, of ?pen] sid by (simp add: st2)
  have e: "filter (\<lambda>p. puShipmentId p = Some sid) (purchases st2) = []"
    by (simp add: st2 st1 filter_empty_conv)
  from a b c d e show ?thesis
    unfolding st2_def st1_def by (intro conjI)
qed

text \<open>
  On a store holding the pending shipment \<open>s1\<close> of 50 pounds: adding a pending
  shipment of 70 pounds brings the total to 120, and \<open>s1\<close> rejected and unrejected is
  pending with no purchase in the index.
\<close>

theorem pending_shipments_and_quota_witness:
  "find (\<lambda>x. shId x = ''s1'') (shipments (exStored (exShipment 50 Pending None None)))
     = Some (exShipment 50 Pending None None)
   \<and> bucketTotal (purchases (exStored (exShipment 50 Pending None None))) ''tuna'' 20086 = 50
   \<and> bucketTotal (purchases (appReducer (exAt 9) (exStored (exShipment 50 Pending None None))
         (ADD_SHIPMENT ((exShipment 70 Approved None None)\<lparr> approvalStatus := Pending \<rparr>))))
        ''tuna'' 20086 = 50 + 70
   \<and> find (\<lambda>x. shId x = ''s1'')
         (shipments (appReducer (exAt 8) (appReducer (exAt 7) (exStored (exShipment 50 Pending None None))
                                     (REJECT_SHIPMENT ''s1'')) (UNREJECT_SHIPMENT ''s1'')))
       = Some ((exShipment 50 Pending None None)\<lparr> approvalStatus := Pending, rejectedAt := None \<rparr>)
   \<and> filter (\<lambda>p. puShipmentId p = Some ''s1'')
         (purchases (appReducer (exAt 8) (appReducer (exAt 7) (exStored (exShipment 50 Pending None None))
                                     (REJECT_SHIPMENT ''s1'')) (UNREJECT_SHIPMENT ''s1'')))
       = []"
proof -
  let ?r = "exShipment 50 Pending None None"
  let ?st = "exStored ?r"
  have found: "find (\<lambda>x. shId x = ''s1'') (shipments ?st) = Some ?r"
    by (simp add: exStored_def exEmpty_def exShipment_def)
  have live: "approvalStatus ?r \<noteq> Rejected"
    by (simp add: exShipment_def)
  have w50: "shipmentWeight ?r ''tuna'' 20086 = 50"
    by (simp add: shipmentWeight_def exShipment_def exArrival_def ex_week_key)
  have w70: "shipmentWeight (exShipment 70 Approved None None) ''tuna'' 20086 = 70"
    by (simp add: shipmentWeight_def exShipment_def exArrival_def ex_week_key)
  have before: "bucketTotal (purchases ?st) ''tuna'' 20086 = 50"
    by (simp add: exStored_def exEmpty_def bucketTotal_append bucketTotal_shipmentPurchases [OF live] w50)
  note all = pending_shipments_and_quota [OF found, where s = "exShipment 70 Approved None None"
      and now = "exAt 9" and productId = "''tuna''" and weekKey = 20086
      and rejectTime = "exAt 7" and unrejectTime = "exAt 8"]
  note c2 = conjunct2
  have added: "bucketTotal (purchases (appReducer (exAt 9) ?st
         (ADD_SHIPMENT ((exShipment 70 Approved None None)\<lparr> approvalStatus := Pending \<rparr>))))
        ''tuna'' 20086 = 50 + 70"
    using all [THEN c2, THEN c2, THEN conjunct1] unfolding before w70 .
  show ?thesis
    by (intro conjI found before added all [THEN c2, THEN c2, THEN c2, THEN conjunct1]
          all [THEN c2, THEN c2, THEN c2, THEN c2])
qed

text \<open>
  Claim C8 as stated fails: a new shipment of 600 pounds of tuna is submitted to an empty
  store, is created pending, and its purchase is in the index; the week's total for
  tuna is then 600 pounds and its status is over.
\<close>

theorem pending_counts_counterexample:
  "handleSubmit exEnv exEmpty (exForm 600 None)
     = Inr (exSubmitted 600 Pending None,
            appReducer (envNow exEnv) exEmpty (ADD_SHIPMENT (exSubmitted 600 Pending None)))
   \<and> approvalStatus (exSubmitted 600 Pending None) = Pending
   \<and> map puShipmentId (purchases (appReducer (envNow exEnv) exEmpty
                                     (ADD_SHIPMENT (exSubmitted 600 Pending None))))
       = [Some (shId (exSubmitted 600 Pending None))]
   \<and> getQuotaStatus (appReducer (envNow exEnv) exEmpty (ADD_SHIPMENT (exSubmitted 600 Pending None)))
         ''tuna'' (Some exArrival)
       = Inr \<lparr> qsProduct = hd exProducts, currentTotal = 600, minQuota = 100, maxQuota = 500,
               percentage = 120, status = Over \<rparr>"
proof -
  have q0: "getQuotaStatus exEmpty ''tuna'' (Some (getWeekStart exArrival))
      = Inr \<lparr> qsProduct = hd exProducts, currentTotal = 0, minQuota = 100, maxQuota = 500,
               percentage = 0, status = Under \<rparr>"
    by (simp add: getQuotaStatus_def exEmpty_def exProducts_def bucketTotal_def classify_def Let_def)
  have req: "requiresApproval exEmpty (getWeekStart exArrival) (formProducts (exForm 600 None)) = Inr True"
    by (simp add: exForm_def q0)
  have valid: "validateProducts 0 (formProducts (exForm 600 None)) = None"
    by (simp add: exForm_def)
  have submit: "handleSubmit exEnv exEmpty (exForm 600 None)
     = Inr (exSubmitted 600 Pending None,
            appReducer (envNow exEnv) exEmpty (ADD_SHIPMENT (exSubmitted 600 Pending None)))"
  proof -
    have arr: "formEstimatedArrival (exForm 600 None) = Some exArrival"
      by (simp add: exForm_def)
    have shp: "trim (formShipper (exForm 600 None)) \<noteq> []"
      by (simp add: exForm_def ex_trim)
    have new: "editingShipment (exForm 600 None) = None"
      by (simp add: exForm_def)
    show ?thesis
      using handleSubmit_dispatches [OF arr shp valid req, of exEnv]
      by (simp add: new exSubmitted_def del: appReducer.simps)
  qed
  have pending: "approvalStatus (exSubmitted 600 Pending None) = Pending"
    by (simp add: exSubmitted_def buildShipment_def Let_def)
  have owner: "map puShipmentId (purchases (appReducer (envNow exEnv) exEmpty
                                     (ADD_SHIPMENT (exSubmitted 600 Pending None))))
       = [Some (shId (exSubmitted 600 Pending None))]"
    by (simp add: exEmpty_def shipmentPurchases_def pending)
       (simp add: exSubmitted_def buildShipment_def buildProducts_def exForm_def Let_def)
  have counted: "getQuotaStatus (appReducer (envNow exEnv) exEmpty (ADD_SHIPMENT (exSubmitted 600 Pending None)))
         ''tuna'' (Some exArrival)
       = Inr \<lparr> qsProduct = hd exProducts, currentTotal = 600, minQuota = 100, maxQuota = 500,
               percentage = 120, status = Over \<rparr>"
    by (simp add: getQuotaStatus_def exEmpty_def exProducts_def bucketTotal_def classify_def Let_def
          shipmentPurchases_def exSubmitted_def buildShipment_def buildProducts_def exForm_def
          exArrival_def ex_week_key)
  from submit pending owner counted show ?thesis by (intro conjI)
qed

section \<open>New and edited shipments\<close>

lemma map_over_enumerate: "map (\<lambda>x. f (snd x)) (enumerate n xs) = map f xs"
  by (induction xs arbitrary: n) simp_all

lemma getQuotaStatus_found:
  "find (\<lambda>c. prodId c = productId) (products state) \<noteq> None \<Longrightarrow>
     \<exists>q. getQuotaStatus state productId weekStartArg = Inr q"
  by (auto simp: getQuotaStatus_def Let_def split: option.splits)

lemma requiresApproval_any:
  assumes "\<forall>p \<in> set ps. pfProductId p \<noteq> ''other'' \<longrightarrow>
             find (\<lambda>c. prodId c = pfProductId p) (products state) \<noteq> None"
  shows "requiresApproval state w ps =
           Inr (\<exists>p \<in> set ps. pfProductId p \<noteq> ''other''
                  \<and> (\<exists>q. getQuotaStatus state (pfProductId p) (Some w) = Inr q
                        \<and> (status q = NearMax \<or> status q = Over
                             \<or> currentTotal q + pfTotalPounds p > maxQuota q)))"
  using assms
proof (induction ps)
  case Nil
  then show ?case by simp
next
  case (Cons p ps)
  then have IH: "requiresApproval state w ps =
           Inr (\<exists>p \<in> set ps. pfProductId p \<noteq> ''other''
                  \<and> (\<exists>q. getQuotaStatus state (pfProductId p) (Some w) = Inr q
                        \<and> (status q = NearMax \<or> status q = Over
                             \<or> currentTotal q + pfTotalPounds p > maxQuota q)))"
    by simp
  show ?case
  proof (cases "pfProductId p = ''other''")
    case True
    then show ?thesis using IH by simp
  next
    case False
    with Cons.prems have "find (\<lambda>c. prodId c = pfProductId p) (products state) \<noteq> None"
      by simp
    then obtain q where q: "getQuotaStatus state (pfProductId p) (Some w) = Inr q"
      using getQuotaStatus_found by blast
    show ?thesis
      using False q IH by auto
  qed
qed

lemma ex_existing:
  "existingPONumbers (exStored (exShipment lbs Approved (Some ''PO-20250101-0001'') None))
     = [''PO-20250101-0001'']"
  by (simp add: existingPONumbers_def exStored_def exEmpty_def exShipment_def truthy_def)

lemma ex_status_480:
  "getQuotaStatus (exStored (exShipment 480 Approved (Some ''PO-20250101-0001'') None))
       ''tuna'' (Some (getWeekStart exArrival))
     = Inr \<lparr> qsProduct = hd exProducts, currentTotal = 480, minQuota = 100, maxQuota = 500,
             percentage = 96, status = NearMax \<rparr>"
  by (simp add: ex_defs getQuotaStatus_def Let_def classify_def bucketTotal_def
        shipmentPurchases_def ex_week_key ex_week_start [unfolded exArrival_def])

lemma ex_status_50:
  "getQuotaStatus (exStored (exShipment 50 Approved (Some ''PO-20250101-0001'') None))
       ''tuna'' (Some (getWeekStart exArrival))
     = Inr \<lparr> qsProduct = hd exProducts, currentTotal = 50, minQuota = 100, maxQuota = 500,
             percentage = 10, status = Under \<rparr>"
  by (simp add: ex_defs getQuotaStatus_def Let_def classify_def bucketTotal_def
        shipmentPurchases_def ex_week_key ex_week_start [unfolded exArrival_def])

lemma ex_form_ok:
  "formEstimatedArrival (exForm lbs editing) = Some exArrival"
  "trim (formShipper (exForm lbs editing)) \<noteq> []"
  "0 < lbs \<Longrightarrow> validateProducts 0 (formProducts (exForm lbs editing)) = None"
  "editingShipment (exForm lbs editing) = editing"
  by (simp_all add: exForm_def ex_trim)

lemma ex_form_known:
  "\<forall>p \<in> set (formProducts (exForm lbs editing)). pfProductId p \<noteq> ''other'' \<longrightarrow>
     find (\<lambda>c. prodId c = pfProductId p) (products (exStored s)) \<noteq> None"
  by (simp add: exForm_def exStored_def exEmpty_def exProducts_def)

lemma ex_requires:
  "requiresApproval (exStored (exShipment 50 Approved (Some ''PO-20250101-0001'') None))
       (getWeekStart exArrival) (formProducts (exForm 600 editing)) = Inr True"
  "requiresApproval (exStored (exShipment 50 Approved (Some ''PO-20250101-0001'') None))
       (getWeekStart exArrival) (formProducts (exForm 50 editing)) = Inr False"
  by (simp_all add: exForm_def ex_status_50)

text \<open>
  What \<open>handleSubmit\<close> decides for a new shipment, line by line. A new shipment (no
  \<open>editingShipment\<close>) whose form passes the validation and whose products, other than
  \<open>other\<close>, are in the catalogue is always created, and it is added to the store by
  \<open>ADD_SHIPMENT\<close>. The statuses are those of \<open>getQuotaStatus\<close> on the state before the
  dispatch, at the week start of the arrival date. If some product line other than
  \<open>other\<close> has status near-max or over, or its committed total plus that one line's
  pounds exceeds \<open>maxQuota\<close>, the whole shipment is pending and has no order number;
  otherwise it is approved and carries the generated order number.
\<close>

theorem new_submission_line_by_line:
  assumes new: "editingShipment form = None"
      and arrival: "formEstimatedArrival form = Some d"
      and shipper: "trim (formShipper form) \<noteq> []"
      and valid: "validateProducts 0 (formProducts form) = None"
      and known: "\<forall>p \<in> set (formProducts form). pfProductId p \<noteq> ''other'' \<longrightarrow>
                    find (\<lambda>c. prodId c = pfProductId p) (products state) \<noteq> None"
  shows "\<exists>shipment.
           handleSubmit env state form
             = Inr (shipment, appReducer (envNow env) state (ADD_SHIPMENT shipment))
         \<and> estimatedArrival shipment = d
         \<and> weekStartDate shipment = getWeekStart d
         \<and> map ppProductId (shProducts shipment) = map pfProductId (formProducts form)
         \<and> map ppTotalPounds (shProducts shipment) = map pfTotalPounds (formProducts form)
         \<and> (if \<exists>p \<in> set (formProducts form). pfProductId p \<noteq> ''other''
                  \<and> (\<exists>q. getQuotaStatus state (pfProductId p) (Some (getWeekStart d)) = Inr q
                        \<and> (status q = NearMax \<or> status q = Over
                             \<or> currentTotal q + pfTotalPounds p > maxQuota q))
             then approvalStatus shipment = Pending \<and> purchaseOrderNumber shipment = None
             else approvalStatus shipment = Approved
                  \<and> purchaseOrderNumber shipment
                      = Some (generatePurchaseOrderNumber (envToday env) (existingPONumbers state)))"
proof -
  let ?required = "\<exists>p \<in> set (formProducts form). pfProductId p \<noteq> ''other''
                  \<and> (\<exists>q. getQuotaStatus state (pfProductId p) (Some (getWeekStart d)) = Inr q
                        \<and> (status q = NearMax \<or> status q = Over
                             \<or> currentTotal q + pfTotalPounds p > maxQuota q))"
  let ?shipment = "buildShipment env form d (if ?required then Pending else Approved)
                  (if ?required then None
                   else Some (generatePurchaseOrderNumber (envToday env) (existingPONumbers state)))"
  have req: "requiresApproval state (getWeekStart d) (formProducts form) = Inr ?required"
    by (rule requiresApproval_any [OF known])
  have "handleSubmit env state form
          = Inr (?shipment, appReducer (envNow env) state (ADD_SHIPMENT ?shipment))"
    using handleSubmit_dispatches [OF arrival shipper valid req, of env] new
    by (simp del: appReducer.simps)
  moreover have "estimatedArrival ?shipment = d" "weekStartDate ?shipment = getWeekStart d"
    by (simp_all add: buildShipment_def Let_def)
  moreover have "map ppProductId (shProducts ?shipment) = map pfProductId (formProducts form)"
    by (simp add: buildShipment_def buildProducts_def Let_def comp_def split_def
          map_over_enumerate)
  moreover have "map ppTotalPounds (shProducts ?shipment) = map pfTotalPounds (formProducts form)"
    by (simp add: buildShipment_def buildProducts_def Let_def comp_def split_def
          map_over_enumerate)
  moreover have "if ?required
             then approvalStatus ?shipment = Pending \<and> purchaseOrderNumber ?shipment = None
             else approvalStatus ?shipment = Approved
                  \<and> purchaseOrderNumber ?shipment
                      = Some (generatePurchaseOrderNumber (envToday env) (existingPONumbers state))"
    by (simp add: buildShipment_def Let_def)
  ultimately show ?thesis by blast
qed

text \<open>
  Fifty pounds of tuna submitted against 480 committed pounds (near-max) is created
  pending with no order number; against 50 committed pounds it is created approved with
  the next order number of the day.
\<close>

theorem new_submission_line_by_line_example:
  "editingShipment (exForm 50 None) = None
   \<and> formEstimatedArrival (exForm 50 None) = Some exArrival
   \<and> trim (formShipper (exForm 50 None)) = ''Dock''
   \<and> validateProducts 0 (formProducts (exForm 50 None)) = None
   \<and> map pfProductId (formProducts (exForm 50 None)) = [''tuna'']
   \<and> find (\<lambda>c. prodId c = ''tuna'')
         (products (exStored (exShipment 480 Approved (Some ''PO-20250101-0001'') None)))
       = Some (hd exProducts)
   \<and> (\<exists>shipment.
         handleSubmit exEnv (exStored (exShipment 480 Approved (Some ''PO-20250101-0001'') None))
             (exForm 50 None)
           = Inr (shipment,
                  appReducer (envNow exEnv)
                    (exStored (exShipment 480 Approved (Some ''PO-20250101-0001'') None))
                    (ADD_SHIPMENT shipment))
         \<and> approvalStatus shipment = Pending \<and> purchaseOrderNumber shipment = None)
   \<and> (\<exists>shipment.
         handleSubmit exEnv (exStored (exShipment 50 Approved (Some ''PO-20250101-0001'') None))
             (exForm 50 None)
           = Inr (shipment,
                  appReducer (envNow exEnv)
                    (exStored (exShipment 50 Approved (Some ''PO-20250101-0001'') None))
                    (ADD_SHIPMENT shipment))
         \<and> approvalStatus shipment = Approved
         \<and> purchaseOrderNumber shipment = Some ''PO-20250101-0002'')"
proof -
  let ?full = "exStored (exShipment 480 Approved (Some ''PO-20250101-0001'') None)"
  let ?low = "exStored (exShipment 50 Approved (Some ''PO-20250101-0001'') None)"
  let ?form = "exForm 50 None"
  have valid: "validateProducts 0 (formProducts ?form) = None"
    by (rule ex_form_ok) simp
  have ids: "map pfProductId (formProducts ?form) = [''tuna'']"
    by (simp add: exForm_def)
  have cat: "find (\<lambda>c. prodId c = ''tuna'') (products ?full) = Some (hd exProducts)"
    by (simp add: exStored_def exEmpty_def exProducts_def)
  have shp: "trim (formShipper ?form) = ''Dock''"
    by (simp add: exForm_def ex_trim)
  have busy: "\<exists>p \<in> set (formProducts ?form). pfProductId p \<noteq> ''other''
                  \<and> (\<exists>q. getQuotaStatus ?full (pfProductId p) (Some (getWeekStart exArrival)) = Inr q
                        \<and> (status q = NearMax \<or> status q = Over
                             \<or> currentTotal q + pfTotalPounds p > maxQuota q))"
    by (simp add: exForm_def ex_status_480)
  have free: "\<not> (\<exists>p \<in> set (formProducts ?form). pfProductId p \<noteq> ''other''
                  \<and> (\<exists>q. getQuotaStatus ?low (pfProductId p) (Some (getWeekStart exArrival)) = Inr q
                        \<and> (status q = NearMax \<or> status q = Over
                             \<or> currentTotal q + pfTotalPounds p > maxQuota q)))"
    by (simp add: exForm_def ex_status_50)
  have pending: "\<exists>shipment.
         handleSubmit exEnv ?full ?form = Inr (shipment, appReducer (envNow exEnv) ?full (ADD_SHIPMENT shipment))
         \<and> approvalStatus shipment = Pending \<and> purchaseOrderNumber shipment = None"
    using new_submission_line_by_line [OF ex_form_ok(4) ex_form_ok(1) ex_form_ok(2) valid ex_form_known,
        of exEnv "exShipment 480 Approved (Some ''PO-20250101-0001'') None"] busy
    by (auto simp del: appReducer.simps)
  have approved: "\<exists>shipment.
         handleSubmit exEnv ?low ?form = Inr (shipment, appReducer (envNow exEnv) ?low (ADD_SHIPMENT shipment))
         \<and> approvalStatus shipment = Approved
         \<and> purchaseOrderNumber shipment = Some ''PO-20250101-0002''"
    using new_submission_line_by_line [OF ex_form_ok(4) ex_form_ok(1) ex_form_ok(2) valid ex_form_known,
        of exEnv "exShipment 50 Approved (Some ''PO-20250101-0001'') None"] free
    by (auto simp: ex_existing ex_next_po simp del: appReducer.simps)
  show ?thesis
    by (intro conjI ex_form_ok(4) ex_form_ok(1) shp valid ids cat pending approved)
qed

text \<open>
  Claim C1. The claim adds the shipment's pounds of a product to the product's committed
  total; \<open>handleSubmit\<close> adds one product line at a time. A new shipment of two lines of
  300 pounds of tuna is submitted to an empty store, where tuna has a maximum of 500
  pounds and nothing committed. The shipment's 600 pounds of tuna exceed the maximum, so
  the claim requires pending; each line alone passes the test, and the shipment is
  created approved with an order number. Once it is stored the week's total for tuna is
  600 pounds and its status is over.
\<close>

theorem duplicate_lines_auto_approved:
  "editingShipment exTwoLines = None
   \<and> map pfProductId (formProducts exTwoLines) = [''tuna'', ''tuna'']
   \<and> map pfTotalPounds (formProducts exTwoLines) = [300, 300]
   \<and> getQuotaStatus exEmpty ''tuna'' (Some (getWeekStart exArrival))
       = Inr \<lparr> qsProduct = hd exProducts, currentTotal = 0, minQuota = 100, maxQuota = 500,
               percentage = 0, status = Under \<rparr>
   \<and> handleSubmit exEnv exEmpty exTwoLines
       = Inr (exTwoLinesShipment,
              appReducer (envNow exEnv) exEmpty (ADD_SHIPMENT exTwoLinesShipment))
   \<and> approvalStatus exTwoLinesShipment = Approved
   \<and> purchaseOrderNumber exTwoLinesShipment = Some ''PO-20250101-0001''
   \<and> getQuotaStatus (appReducer (envNow exEnv) exEmpty (ADD_SHIPMENT exTwoLinesShipment))
         ''tuna'' (Some exArrival)
       = Inr \<lparr> qsProduct = hd exProducts, currentTotal = 600, minQuota = 100, maxQuota = 500,
               percentage = 120, status = Over \<rparr>"
proof -
  have new: "editingShipment exTwoLines = None"
    and ids: "map pfProductId (formProducts exTwoLines) = [''tuna'', ''tuna'']"
    and lbs: "map pfTotalPounds (formProducts exTwoLines) = [300, 300]"
    and arr: "formEstimatedArrival exTwoLines = Some exArrival"
    and shp: "trim (formShipper exTwoLines) \<noteq> []"
    and valid: "validateProducts 0 (formProducts exTwoLines) = None"
    by (simp_all add: exTwoLines_def ex_trim)
  have q0: "getQuotaStatus exEmpty ''tuna'' (Some (getWeekStart exArrival))
      = Inr \<lparr> qsProduct = hd exProducts, currentTotal = 0, minQuota = 100, maxQuota = 500,
               percentage = 0, status = Under \<rparr>"
    by (simp add: getQuotaStatus_def exEmpty_def exProducts_def bucketTotal_def classify_def Let_def)
  have req: "requiresApproval exEmpty (getWeekStart exArrival) (formProducts exTwoLines) = Inr False"
    by (simp add: exTwoLines_def q0)
  have none: "existingPONumbers exEmpty = []"
    by (simp add: existingPONumbers_def exEmpty_def)
  have submit: "handleSubmit exEnv exEmpty exTwoLines
       = Inr (exTwoLinesShipment,
              appReducer (envNow exEnv) exEmpty (ADD_SHIPMENT exTwoLinesShipment))"
    using handleSubmit_dispatches [OF arr shp valid req, of exEnv]
    by (simp add: new none ex_first_po exTwoLinesShipment_def del: appReducer.simps)
  have approved: "approvalStatus exTwoLinesShipment = Approved"
    and po: "purchaseOrderNumber exTwoLinesShipment = Some ''PO-20250101-0001''"
    by (simp_all add: exTwoLinesShipment_def buildShipment_def Let_def)
  have after: "getQuotaStatus (appReducer (envNow exEnv) exEmpty (ADD_SHIPMENT exTwoLinesShipment))
         ''tuna'' (Some exArrival)
       = Inr \<lparr> qsProduct = hd exProducts, currentTotal = 600, minQuota = 100, maxQuota = 500,
               percentage = 120, status = Over \<rparr>"
    by (simp add: getQuotaStatus_def exEmpty_def exProducts_def bucketTotal_def classify_def Let_def
          shipmentPurchases_def exTwoLinesShipment_def buildShipment_def buildProducts_def
          exTwoLines_def exArrival_def ex_week_key)
  show ?thesis
    by (intro conjI new ids lbs q0 submit approved po after)
qed

text \<open>
  Claim C2, amended. Saving an edit runs the approval decision again, on the store
  as it is at that moment: the saved shipment is pending without an order number when the decision requires approval and approved
  with a newly generated order number otherwise. The id, \<open>purchaseDate\<close> and
  \<open>createdAt\<close> are those of the shipment being edited, \<open>weekStartDate\<close> is the week start
  of the arrival date in the form, the stored shipment is replaced and its derived
  purchases are removed and rebuilt.
\<close>

theorem edit_reruns_decision:
  assumes editing: "editingShipment form = Some e"
      and named: "shId e \<noteq> []"
      and arrival: "formEstimatedArrival form = Some d"
      and shipper: "trim (formShipper form) \<noteq> []"
      and valid: "validateProducts 0 (formProducts form) = None"
      and decided: "requiresApproval state (getWeekStart d) (formProducts form) = Inr required"
  shows "\<exists>shipment.
           handleSubmit env state form
             = Inr (shipment, appReducer (envNow env) state (EDIT_SHIPMENT shipment))
         \<and> shId shipment = shId e
         \<and> purchaseDate shipment = purchaseDate e
         \<and> createdAt shipment = createdAt e
         \<and> estimatedArrival shipment = d
         \<and> weekStartDate shipment = getWeekStart d
         \<and> approvalStatus shipment = (if required then Pending else Approved)
         \<and> purchaseOrderNumber shipment
             = (if required then None
                else Some (generatePurchaseOrderNumber (envToday env) (existingPONumbers state)))
         \<and> shipments (appReducer (envNow env) state (EDIT_SHIPMENT shipment))
             = map (\<lambda>s. if shId s = shId e then shipment else s) (shipments state)
         \<and> purchases (appReducer (envNow env) state (EDIT_SHIPMENT shipment))
             = filter (\<lambda>p. puShipmentId p \<noteq> Some (shId e)) (purchases state)
               @ shipmentPurchases shipment"
proof -
  let ?shipment = "buildShipment env form d (if required then Pending else Approved)
                  (if required then None
                   else Some (generatePurchaseOrderNumber (envToday env) (existingPONumbers state)))"
  have "handleSubmit env state form
          = Inr (?shipment, appReducer (envNow env) state (EDIT_SHIPMENT ?shipment))"
    using handleSubmit_dispatches [OF arrival shipper valid decided, of env] editing
    by (simp del: appReducer.simps)
  moreover have same: "shId ?shipment = shId e"
    by (simp add: buildShipment_def Let_def editing named)
  moreover have "purchaseDate ?shipment = purchaseDate e" "createdAt ?shipment = createdAt e"
    "estimatedArrival ?shipment = d" "weekStartDate ?shipment = getWeekStart d"
    "approvalStatus ?shipment = (if required then Pending else Approved)"
    "purchaseOrderNumber ?shipment
             = (if required then None
                else Some (generatePurchaseOrderNumber (envToday env) (existingPONumbers state)))"
    by (simp_all add: buildShipment_def Let_def editing)
  moreover have "shipments (appReducer (envNow env) state (EDIT_SHIPMENT ?shipment))
             = map (\<lambda>s. if shId s = shId e then ?shipment else s) (shipments state)"
    by (simp add: Let_def same)
  moreover have "purchases (appReducer (envNow env) state (EDIT_SHIPMENT ?shipment))
             = filter (\<lambda>p. puShipmentId p \<noteq> Some (shId e)) (purchases state)
               @ shipmentPurchases ?shipment"
    by (simp add: Let_def same)
  ultimately show ?thesis by blast
qed

text \<open>
  The approved shipment \<open>s1\<close> edited to 600 pounds: the decision requires approval,
  and the saved shipment keeps its id and is pending with no order number.
\<close>

theorem edit_reruns_decision_witness:
  "editingShipment (exForm 600 (Some (exShipment 50 Approved (Some ''PO-20250101-0001'') None)))
     = Some (exShipment 50 Approved (Some ''PO-20250101-0001'') None)
   \<and> shId (exShipment 50 Approved (Some ''PO-20250101-0001'') None) = ''s1''
   \<and> requiresApproval (exStored (exShipment 50 Approved (Some ''PO-20250101-0001'') None))
         (getWeekStart exArrival)
         (formProducts (exForm 600 (Some (exShipment 50 Approved (Some ''PO-20250101-0001'') None))))
       = Inr True
   \<and> (\<exists>shipment.
         handleSubmit exEnv (exStored (exShipment 50 Approved (Some ''PO-20250101-0001'') None))
             (exForm 600 (Some (exShipment 50 Approved (Some ''PO-20250101-0001'') None)))
           = Inr (shipment,
                  appReducer (envNow exEnv)
                    (exStored (exShipment 50 Approved (Some ''PO-20250101-0001'') None))
                    (EDIT_SHIPMENT shipment))
         \<and> shId shipment = ''s1''
         \<and> approvalStatus shipment = Pending \<and> purchaseOrderNumber shipment = None)"
proof -
  let ?a = "exShipment 50 Approved (Some ''PO-20250101-0001'') None"
  let ?form = "exForm 600 (Some ?a)"
  have id: "shId ?a = ''s1''"
    by (simp add: exShipment_def)
  then have named: "shId ?a \<noteq> []"
    by simp
  have valid: "validateProducts 0 (formProducts ?form) = None"
    by (rule ex_form_ok) simp
  have "\<exists>shipment.
         handleSubmit exEnv (exStored ?a) ?form
           = Inr (shipment, appReducer (envNow exEnv) (exStored ?a) (EDIT_SHIPMENT shipment))
         \<and> shId shipment = ''s1''
         \<and> approvalStatus shipment = Pending \<and> purchaseOrderNumber shipment = None"
    using edit_reruns_decision [OF ex_form_ok(4) named ex_form_ok(1) ex_form_ok(2) valid ex_requires(1),
        of exEnv] id
    by (auto simp del: appReducer.simps)
  then show ?thesis
    by (intro conjI ex_form_ok(4) id ex_requires(1))
qed

text \<open>
  Claim C2 as stated fails: an approved shipment of 50 pounds with order number
  \<open>PO-20250101-0001\<close> is edited to 600 pounds and is saved pending with no order number;
  saved with nothing changed, it stays approved but its order number becomes
  \<open>PO-20250101-0002\<close>.
\<close>

theorem edit_changes_approval_counterexample:
  "find (\<lambda>x. shId x = ''s1'')
       (shipments (exStored (exShipment 50 Approved (Some ''PO-20250101-0001'') None)))
     = Some (exShipment 50 Approved (Some ''PO-20250101-0001'') None)
   \<and> approvalStatus (exShipment 50 Approved (Some ''PO-20250101-0001'') None) = Approved
   \<and> purchaseOrderNumber (exShipment 50 Approved (Some ''PO-20250101-0001'') None)
       = Some ''PO-20250101-0001''
   \<and> handleSubmit exEnv (exStored (exShipment 50 Approved (Some ''PO-20250101-0001'') None))
         (exForm 600 (Some (exShipment 50 Approved (Some ''PO-20250101-0001'') None)))
       = Inr (exEdited 600 Pending None,
              appReducer (envNow exEnv)
                (exStored (exShipment 50 Approved (Some ''PO-20250101-0001'') None))
                (EDIT_SHIPMENT (exEdited 600 Pending None)))
   \<and> shId (exEdited 600 Pending None) = ''s1''
   \<and> approvalStatus (exEdited 600 Pending None) = Pending
   \<and> purchaseOrderNumber (exEdited 600 Pending None) = None
   \<and> handleSubmit exEnv (exStored (exShipment 50 Approved (Some ''PO-20250101-0001'') None))
         (exForm 50 (Some (exShipment 50 Approved (Some ''PO-20250101-0001'') None)))
       = Inr (exEdited 50 Approved (Some ''PO-20250101-0002''),
              appReducer (envNow exEnv)
                (exStored (exShipment 50 Approved (Some ''PO-20250101-0001'') None))
                (EDIT_SHIPMENT (exEdited 50 Approved (Some ''PO-20250101-0002''))))
   \<and> purchaseOrderNumber (exEdited 50 Approved (Some ''PO-20250101-0002''))
       = Some ''PO-20250101-0002''"
proof -
  let ?a = "exShipment 50 Approved (Some ''PO-20250101-0001'') None"
  have found: "find (\<lambda>x. shId x = ''s1'') (shipments (exStored ?a)) = Some ?a"
    by (simp add: exStored_def exEmpty_def exShipment_def)
  have was: "approvalStatus ?a = Approved" "purchaseOrderNumber ?a = Some ''PO-20250101-0001''"
    by (simp_all add: exShipment_def)
  have v600: "validateProducts 0 (formProducts (exForm 600 (Some ?a))) = None"
    by (rule ex_form_ok) simp
  have v50: "validateProducts 0 (formProducts (exForm 50 (Some ?a))) = None"
    by (rule ex_form_ok) simp
  have grown: "handleSubmit exEnv (exStored ?a) (exForm 600 (Some ?a))
       = Inr (exEdited 600 Pending None,
              appReducer (envNow exEnv) (exStored ?a) (EDIT_SHIPMENT (exEdited 600 Pending None)))"
    using handleSubmit_dispatches [OF ex_form_ok(1) ex_form_ok(2) v600 ex_requires(1), of exEnv]
    by (simp add: ex_form_ok(4) exEdited_def del: appReducer.simps)
  have same: "handleSubmit exEnv (exStored ?a) (exForm 50 (Some ?a))
       = Inr (exEdited 50 Approved (Some ''PO-20250101-0002''),
              appReducer (envNow exEnv) (exStored ?a)
                (EDIT_SHIPMENT (exEdited 50 Approved (Some ''PO-20250101-0002''))))"
    using handleSubmit_dispatches [OF ex_form_ok(1) ex_form_ok(2) v50 ex_requires(2), of exEnv]
    by (simp add: ex_form_ok(4) exEdited_def ex_existing ex_next_po del: appReducer.simps)
  have now: "shId (exEdited 600 Pending None) = ''s1''"
    "approvalStatus (exEdited 600 Pending None) = Pending"
    "purchaseOrderNumber (exEdited 600 Pending None) = None"
    "purchaseOrderNumber (exEdited 50 Approved (Some ''PO-20250101-0002'')) = Some ''PO-20250101-0002''"
    by (simp_all add: exEdited_def buildShipment_def Let_def exForm_def exShipment_def)
  show ?thesis
    by (intro conjI found was grown same now)
qed

section \<open>Purchase order numbers\<close>

lemma sequenceStep_entry:
  "sequenceStep m po = (case entrySequence po of None \<Rightarrow> m | Some n \<Rightarrow> max m n)"
  by (auto simp: sequenceStep_def entrySequence_def max_def split: option.splits)

lemma Max_insert_max:
  "finite A \<Longrightarrow> Max (insert (max a b) A) = Max (insert a (insert b A))"
  for a :: int
  by (cases "A = {}") (simp_all add: max.assoc)

lemma foldl_sequenceStep:
  "foldl sequenceStep m pos = Max (set (m # List.map_filter entrySequence pos))"
proof (induction pos arbitrary: m)
  case Nil
  then show ?case by (simp add: map_filter_simps)
next
  case (Cons po pos)
  show ?case
  proof (cases "entrySequence po")
    case None
    then have "sequenceStep m po = m"
      by (simp add: sequenceStep_entry)
    then show ?thesis
      using None by (simp add: Cons.IH map_filter_simps)
  next
    case (Some n)
    then have "sequenceStep m po = max m n"
      by (simp add: sequenceStep_entry)
    then show ?thesis
      using Some by (simp add: Cons.IH map_filter_simps Max_insert_max)
  qed
qed

lemma digitChar_isDigit: "d < 10 \<Longrightarrow> isDigit (digitChar d)"
proof -
  assume "d < 10"
  then have "d \<in> {0, 1, 2, 3, 4, 5, 6, 7, 8, 9}" by auto
  then show ?thesis
    by (auto simp: isDigit_def digitChar_def)
qed

lemma natToString_digits: "list_all isDigit (natToString n)"
proof (induction n rule: natToString.induct)
  case (1 n)
  show ?case
  proof (cases "n < 10")
    case True
    then show ?thesis
      by (subst natToString.simps) (simp add: digitChar_isDigit)
  next
    case False
    then show ?thesis
      using "1.IH" by (subst natToString.simps) (simp add: digitChar_isDigit)
  qed
qed

lemma natToString_length_le: "0 < k \<Longrightarrow> n < 10 ^ k \<Longrightarrow> length (natToString n) \<le> k"
proof (induction n arbitrary: k rule: natToString.induct)
  case (1 n)
  show ?case
  proof (cases "n < 10")
    case True
    then show ?thesis
      using "1.prems" by (subst natToString.simps) simp
  next
    case False
    then have "k \<noteq> 1" using "1.prems" by auto
    then obtain j where k: "k = Suc j" "0 < j"
      using "1.prems"(1) by (cases k) auto
    have "n div 10 < 10 ^ j"
      using "1.prems"(2) k by (simp add: less_mult_imp_div_less mult.commute)
    then have "length (natToString (n div 10)) \<le> j"
      using "1.IH" [OF False k(2)] by simp
    then show ?thesis
      using False k by (subst natToString.simps) simp
  qed
qed

lemma natToString_length_ge: "10 ^ k \<le> n \<Longrightarrow> k < length (natToString n)"
proof (induction n arbitrary: k rule: natToString.induct)
  case (1 n)
  show ?case
  proof (cases "n < 10")
    case True
    have "k = 0"
    proof (rule ccontr)
      assume "k \<noteq> 0"
      then have "(10::nat) \<le> 10 ^ k"
        by (intro self_le_power) simp_all
      with True "1.prems" show False by simp
    qed
    then show ?thesis
      using True by (subst natToString.simps) simp
  next
    case False
    show ?thesis
    proof (cases k)
      case 0
      then show ?thesis using False by (subst natToString.simps) simp
    next
      case (Suc j)
      then have "10 ^ j \<le> n div 10"
        using "1.prems" by (simp add: less_eq_div_iff_mult_less_eq mult.commute)
      then have "j < length (natToString (n div 10))"
        using "1.IH" [OF False] by simp
      then show ?thesis
        using False Suc by (subst natToString.simps) simp
    qed
  qed
qed

lemma padStart_length: "length (padStart k c s) = max k (length s)"
  by (simp add: padStart_def)

lemma padStart_digits: "isDigit c \<Longrightarrow> list_all isDigit s \<Longrightarrow> list_all isDigit (padStart k c s)"
  by (auto simp: padStart_def list_all_iff)

lemma zero_isDigit: "isDigit (CHR ''0'')"
  by (simp add: isDigit_def)

lemma isDigit_plain:
  "isDigit c \<Longrightarrow> c \<noteq> CHR ''-'' \<and> c \<noteq> CHR ''+'' \<and> \<not> isWhiteSpace c"
  by (auto simp: isDigit_def isWhiteSpace_def)

lemma split_plain: "c \<notin> set xs \<Longrightarrow> split c xs = [xs]"
  by (induction xs) auto

lemma split_at_separator: "c \<notin> set xs \<Longrightarrow> split c (xs @ c # ys) = xs # split c ys"
  by (induction xs) auto

lemma parseInt_digits:
  assumes "ds \<noteq> []" and "list_all isDigit ds"
  shows "parseInt ds = Some (int (decimalValue ds))"
proof -
  obtain d rest where ds: "ds = d # rest"
    using assms(1) by (cases ds) auto
  have d: "isDigit d" using assms(2) ds by simp
  have "dropWhile isWhiteSpace ds = ds"
    using isDigit_plain [OF d] ds by simp
  moreover have "takeWhile isDigit ds = ds"
    using assms(2) by (simp add: takeWhile_eq_all_conv list_all_iff)
  ultimately show ?thesis
    using isDigit_plain [OF d] ds assms(1) by (simp add: parseInt_def Let_def)
qed

lemma valid_entry_fields:
  assumes "isValidPurchaseOrderNumber po"
  shows "po = ''PO'' @ CHR ''-'' # take 8 (drop 3 po) @ CHR ''-'' # drop 12 po"
proof -
  have len: "length po = 16" and start: "take 3 po = ''PO-''" and dash: "po ! 11 = CHR ''-''"
    using assms by (simp_all add: isValidPurchaseOrderNumber_def)
  have "po = take 3 po @ drop 3 po" by simp
  also have "drop 3 po = take 8 (drop 3 po) @ drop 8 (drop 3 po)"
    by (rule append_take_drop_id [symmetric])
  also have "drop 8 (drop 3 po) = drop 11 po" by simp
  also have "drop 11 po = po ! 11 # drop 12 po"
    using len Cons_nth_drop_Suc [of 11 po] by simp
  finally show ?thesis
    using start dash by simp
qed

lemma valid_entry_sequence:
  assumes "isValidPurchaseOrderNumber po"
  shows "entrySequence po = Some (int (decimalValue (drop 12 po)))"
proof -
  let ?D = "take 8 (drop 3 po)" and ?S = "drop 12 po"
  have D: "list_all isDigit ?D" and S: "list_all isDigit ?S" and len: "length po = 16"
    using assms by (simp_all add: isValidPurchaseOrderNumber_def)
  have noD: "CHR ''-'' \<notin> set ?D" and noS: "CHR ''-'' \<notin> set ?S"
    using D S isDigit_plain unfolding list_all_iff by blast+
  have "split (CHR ''-'') po = split (CHR ''-'') (''PO'' @ CHR ''-'' # ?D @ CHR ''-'' # ?S)"
    using valid_entry_fields [OF assms] by simp
  also have "\<dots> = ''PO'' # split (CHR ''-'') (?D @ CHR ''-'' # ?S)"
    by (rule split_at_separator) simp
  also have "\<dots> = ''PO'' # ?D # split (CHR ''-'') ?S"
    by (simp only: split_at_separator [OF noD])
  also have "\<dots> = [''PO'', ?D, ?S]"
    by (simp only: split_plain [OF noS])
  finally have fields: "split (CHR ''-'') po = [''PO'', ?D, ?S]" .
  have "?S \<noteq> []" using len by simp
  then show ?thesis
    using parseInt_digits [OF _ S] by (simp add: entrySequence_def fields elemAt_def)
qed

lemma highestSequence_nonneg: "0 \<le> highestSequence today existing"
  by (simp add: highestSequence_def)

lemma generate_highest:
  "generatePurchaseOrderNumber today existing
     = datePrefix today @ ''-''
         @ padStart 4 (CHR ''0'') (numberToString (highestSequence today existing + 1))"
  by (simp add: generatePurchaseOrderNumber_def Let_def foldl_sequenceStep highestSequence_def)

lemma numberToString_nat: "0 \<le> i \<Longrightarrow> numberToString i = natToString (nat i)"
  by (simp add: numberToString_def)

lemma two_digits:
  assumes "0 \<le> i" and "i < 100"
  shows "length (padStart 2 (CHR ''0'') (numberToString i)) = 2"
    and "list_all isDigit (padStart 2 (CHR ''0'') (numberToString i))"
proof -
  have "length (natToString (nat i)) \<le> 2"
    using assms by (intro natToString_length_le) simp_all
  then show "length (padStart 2 (CHR ''0'') (numberToString i)) = 2"
    using assms(1) by (simp add: padStart_length numberToString_nat)
  show "list_all isDigit (padStart 2 (CHR ''0'') (numberToString i))"
    using assms(1) by (simp add: padStart_digits zero_isDigit natToString_digits numberToString_nat)
qed

lemma four_digits:
  assumes "0 \<le> i" and "i < 10000"
  shows "length (padStart 4 (CHR ''0'') (numberToString i)) = 4"
    and "list_all isDigit (padStart 4 (CHR ''0'') (numberToString i))"
proof -
  have "length (natToString (nat i)) \<le> 4"
    using assms by (intro natToString_length_le) simp_all
  then show "length (padStart 4 (CHR ''0'') (numberToString i)) = 4"
    using assms(1) by (simp add: padStart_length numberToString_nat)
  show "list_all isDigit (padStart 4 (CHR ''0'') (numberToString i))"
    using assms(1) by (simp add: padStart_digits zero_isDigit natToString_digits numberToString_nat)
qed

lemma year_digits:
  assumes "1000 \<le> y" and "y \<le> 9999"
  shows "length (numberToString y) = 4" and "list_all isDigit (numberToString y)"
proof -
  have nonneg: "0 \<le> y" using assms by simp
  have "length (natToString (nat y)) \<le> 4"
    using assms by (intro natToString_length_le) simp_all
  moreover have "3 < length (natToString (nat y))"
    using assms by (intro natToString_length_ge) simp
  ultimately show "length (numberToString y) = 4"
    by (simp add: numberToString_nat [OF nonneg])
  show "list_all isDigit (numberToString y)"
    by (simp add: numberToString_nat [OF nonneg] natToString_digits)
qed

lemma valid_shape:
  assumes "length Y = 4" "length M = 2" "length D = 2" "length S = 4"
      and "list_all isDigit Y" "list_all isDigit M" "list_all isDigit D" "list_all isDigit S"
  shows "isValidPurchaseOrderNumber ((''PO-'' @ Y @ M @ D) @ ''-'' @ S)"
  using assms by (simp add: isValidPurchaseOrderNumber_def nth_append)

lemma generate_valid:
  assumes "1000 \<le> getFullYear today" "getFullYear today \<le> 9999"
      and "0 \<le> getMonth today" "getMonth today \<le> 11"
      and "1 \<le> getDate today" "getDate today \<le> 31"
      and "highestSequence today existing < 9999"
  shows "isValidPurchaseOrderNumber (generatePurchaseOrderNumber today existing)"
proof -
  have m: "0 \<le> getMonth today + 1" "getMonth today + 1 < 100"
    and d: "0 \<le> getDate today" "getDate today < 100"
    and s: "0 \<le> highestSequence today existing + 1" "highestSequence today existing + 1 < 10000"
    using assms highestSequence_nonneg [of today existing] by simp_all
  show ?thesis
    unfolding generate_highest datePrefix_def
    by (intro valid_shape year_digits [OF assms(1,2)] two_digits [OF m] two_digits [OF d]
          four_digits [OF s])
qed

lemma generate_first:
  assumes "\<forall>po \<in> set existing. \<not> startsWith po (datePrefix today)"
  shows "generatePurchaseOrderNumber today existing = datePrefix today @ ''-0001''"
proof -
  have "filter (\<lambda>po. startsWith po (datePrefix today)) existing = []"
    using assms by (simp add: filter_empty_conv)
  then have "highestSequence today existing = 0"
    by (simp add: highestSequence_def map_filter_simps)
  then show ?thesis
    by (simp add: generate_highest numberToString_def natToString.simps digitChar_def padStart_def
          numeral_3_eq_3)
qed

text \<open>
  Claim C5, amended. The generated number is today's prefix \<open>PO-YYYYMMDD\<close>, a hyphen,
  and one more than the highest sequence number among the entries that start with that
  prefix, padded with zeros to four digits. An entry's sequence number is what
  \<open>parseInt\<close> reads from its third field; no entry is tested against the strict format,
  and an entry without such a number is passed over. When no entry starts with today's
  prefix the sequence is \<open>0001\<close>. A strictly formatted entry's sequence number is its last
  four digits. For a four-digit year and a highest number below 9999 the result has the
  strict format \<open>PO-YYYYMMDD-NNNN\<close>.
\<close>

theorem generated_order_number:
  "generatePurchaseOrderNumber today existing
     = datePrefix today @ ''-''
         @ padStart 4 (CHR ''0'') (numberToString (highestSequence today existing + 1))
   \<and> ((\<forall>po \<in> set existing. \<not> startsWith po (datePrefix today)) \<longrightarrow>
         generatePurchaseOrderNumber today existing = datePrefix today @ ''-0001'')
   \<and> (\<forall>po. isValidPurchaseOrderNumber po \<longrightarrow>
         entrySequence po = Some (int (decimalValue (drop 12 po))))
   \<and> (1000 \<le> getFullYear today \<and> getFullYear today \<le> 9999
       \<and> 0 \<le> getMonth today \<and> getMonth today \<le> 11
       \<and> 1 \<le> getDate today \<and> getDate today \<le> 31
       \<and> highestSequence today existing < 9999 \<longrightarrow>
         isValidPurchaseOrderNumber (generatePurchaseOrderNumber today existing))"
  using generate_highest generate_first valid_entry_sequence generate_valid
  by blast

text \<open>
  On 1 January 2025, with one entry of the day numbered 0041, one of the day before
  and one that is no order number: the next number is 0042 and is strictly formatted.
  With only the entry of the day before, it is 0001.
\<close>

theorem generated_order_number_witness:
  "generatePurchaseOrderNumber (envToday exEnv) [''PO-20250101-0041'', ''PO-20241231-0100'', ''garbage'']
     = ''PO-20250101-0042''
   \<and> highestSequence (envToday exEnv) [''PO-20250101-0041'', ''PO-20241231-0100'', ''garbage''] = 41
   \<and> isValidPurchaseOrderNumber
         (generatePurchaseOrderNumber (envToday exEnv)
            [''PO-20250101-0041'', ''PO-20241231-0100'', ''garbage''])
   \<and> isValidPurchaseOrderNumber ''PO-20250101-0041''
   \<and> entrySequence ''PO-20250101-0041'' = Some 41
   \<and> \<not> startsWith ''PO-20241231-0100'' (datePrefix (envToday exEnv))
   \<and> generatePurchaseOrderNumber (envToday exEnv) [''PO-20241231-0100''] = ''PO-20250101-0001''"
proof -
  let ?today = "envToday exEnv"
  let ?existing = "[''PO-20250101-0041'', ''PO-20241231-0100'', ''garbage'']"
  note all = generated_order_number [of ?today]
  have prefix: "datePrefix ?today = ''PO-20250101''"
    by code_simp
  have top: "highestSequence ?today ?existing = 41"
    by code_simp
  have padded: "padStart 4 (CHR ''0'') (numberToString (41 + 1)) = ''0042''"
    by code_simp
  have a: "generatePurchaseOrderNumber ?today ?existing = ''PO-20250101-0042''"
    using all [of ?existing, THEN conjunct1] unfolding top padded prefix by simp
  have date: "1000 \<le> getFullYear ?today \<and> getFullYear ?today \<le> 9999
       \<and> 0 \<le> getMonth ?today \<and> getMonth ?today \<le> 11
       \<and> 1 \<le> getDate ?today \<and> getDate ?today \<le> 31
       \<and> highestSequence ?today ?existing < 9999"
    unfolding top by (simp add: exEnv_def)
  have b: "isValidPurchaseOrderNumber (generatePurchaseOrderNumber ?today ?existing)"
    using all [of ?existing, THEN conjunct2, THEN conjunct2, THEN conjunct2, THEN mp, OF date] .
  have c: "isValidPurchaseOrderNumber ''PO-20250101-0041''"
    by code_simp
  have read: "int (decimalValue (drop 12 ''PO-20250101-0041'')) = 41"
    by code_simp
  have d: "entrySequence ''PO-20250101-0041'' = Some 41"
    using all [of ?existing, THEN conjunct2, THEN conjunct2, THEN conjunct1, THEN spec, THEN mp, OF c]
    unfolding read .
  have e: "\<not> startsWith ''PO-20241231-0100'' (datePrefix ?today)"
    unfolding prefix by code_simp
  then have none: "\<forall>po \<in> set [''PO-20241231-0100'']. \<not> startsWith po (datePrefix ?today)"
    by simp
  have f: "generatePurchaseOrderNumber ?today [''PO-20241231-0100''] = ''PO-20250101-0001''"
    using all [of "[''PO-20241231-0100'']", THEN conjunct2, THEN conjunct1, THEN mp, OF none]
    unfolding prefix by simp
  show ?thesis
    by (intro conjI a top b c d e f)
qed

text \<open>
  Claim C5 as stated fails: the entry \<open>PO-20250101-7\<close> does not have the strict format,
  yet it is counted and the next number is \<open>0008\<close>, not \<open>0001\<close>; and after the strictly
  formatted \<open>PO-20250101-9999\<close> the next number has five digits.
\<close>

theorem malformed_entry_counterexample:
  "\<not> isValidPurchaseOrderNumber ''PO-20250101-7''
   \<and> generatePurchaseOrderNumber (envToday exEnv) [''PO-20250101-7''] = ''PO-20250101-0008''
   \<and> generatePurchaseOrderNumber (envToday exEnv) [] = ''PO-20250101-0001''
   \<and> isValidPurchaseOrderNumber ''PO-20250101-9999''
   \<and> generatePurchaseOrderNumber (envToday exEnv) [''PO-20250101-9999''] = ''PO-20250101-10000''
   \<and> \<not> isValidPurchaseOrderNumber ''PO-20250101-10000''"
proof -
  have a: "\<not> isValidPurchaseOrderNumber ''PO-20250101-7''"
    by (simp add: isValidPurchaseOrderNumber_def)
  have b: "generatePurchaseOrderNumber (envToday exEnv) [''PO-20250101-7''] = ''PO-20250101-0008''"
    by code_simp
  have c: "isValidPurchaseOrderNumber ''PO-20250101-9999''"
    by code_simp
  have fields: "split (CHR ''-'') ''PO-20250101-9999'' = [''PO'', ''20250101'', ''9999'']"
    by simp
  have digits: "decimalValue ''9999'' = 9999"
    by (simp add: decimalValue_def digitValue_def)
  have parsed: "parseInt ''9999'' = Some 9999"
    by (simp add: parseInt_def Let_def isWhiteSpace_def isDigit_def digits)
  have prefix: "datePrefix (envToday exEnv) = ''PO-20250101''"
    by code_simp
  have numeral: "natToString 10000 = ''10000''"
    by (simp add: natToString.simps digitChar_def)
  have d: "generatePurchaseOrderNumber (envToday exEnv) [''PO-20250101-9999''] = ''PO-20250101-10000''"
    by (simp add: generatePurchaseOrderNumber_def Let_def prefix startsWith_def sequenceStep_def
          fields elemAt_def parsed numberToString_def numeral padStart_def)
  have e: "\<not> isValidPurchaseOrderNumber ''PO-20250101-10000''"
    by (simp add: isValidPurchaseOrderNumber_def)
  show ?thesis
    by (intro conjI a b ex_first_po c d e)
qed

end
